theory Spec2Isabelle
  imports Main "HOL-Library.Word"
begin

text \<open>
  A shallow embedding of the payment library \<open>@xyz/payment\<close>: the webhook handlers and
  \<open>createCheckoutLink\<close> of its providers (Stripe, LemonSqueezy, Polar, Creem, DodoPayments,
  Tap, Console, Custom) and Tap's helpers \<open>chargeCard\<close> and \<open>extractSavedCardFromWebhook\<close>.
  What the code takes from outside is a parameter of its model: the environment
  \<open>process.env\<close>, the HMAC function of \<open>node:crypto\<close>, \<open>fetch\<close>, \<open>parseInt\<close>, the clock and the
  \<open>WebhookVerifier\<close> that Tap imports. \<open>JSON.parse\<close>, property reads and truthiness are
  defined here, since the handlers' answers depend on them. A function that can throw
  returns \<open>error + 'a\<close>; a function that calls a provider also returns the calls it made.
\<close>

section \<open>JavaScript values\<close>

text \<open>
  The providers of the payment library are TypeScript modules that run on the JavaScript
  platform. A JavaScript string is represented by the byte sequence of its UTF-8 encoding
  (a \<^typ>\<open>string\<close>); for text that is valid UTF-8, \<open>Buffer.from(s, "utf8")\<close> and the
  bytes that \<open>createHmac(..).update(s)\<close> hashes are then \<open>s\<close> itself.

  A number is \<open>NaN\<close> or is written \<open>Num m e\<close>, which denotes the double nearest to
  \<open>m * 10 ^ e\<close>.
\<close>

datatype number = Num int int | NaN

datatype js =
    JUndefined
  | JNull
  | JBool bool
  | JNum number
  | JStr string
  | JArr "js list"
  | JObj "(string \<times> js) list"

text \<open>
  What the code can throw. \<open>Error msg\<close> is \<open>new Error(msg)\<close>; \<open>ApiError prefix body\<close> is
  \<open>new Error(`${prefix}${JSON.stringify(body)}`)\<close>, kept structured; the other
  constructors are the exceptions raised by the platform: a property read on \<open>null\<close> or
  \<open>undefined\<close> and \<open>Buffer.from(null)\<close> (TypeError), \<open>JSON.parse\<close> and \<open>response.json()\<close>
  (SyntaxError), \<open>timingSafeEqual\<close> on inputs of different byte length (RangeError), and a
  rejected \<open>fetch\<close> (FetchFailed).
\<close>

datatype error =
    Error string
  | ApiError string js
  | TypeError
  | SyntaxError
  | RangeError
  | FetchFailed

text \<open>\<open>ToBoolean\<close>: a number is falsy when it is NaN or its double is zero, that is
  when \<open>|m * 10 ^ e| \<le> 2 ^ -1075\<close> (the value rounds to zero).\<close>

fun num_truthy :: "number \<Rightarrow> bool" where
  "num_truthy NaN = False"
| "num_truthy (Num m e) =
     (if 0 \<le> e then m \<noteq> 0 else 10 ^ nat (- e) < \<bar>m\<bar> * 2 ^ 1075)"

fun truthy :: "js \<Rightarrow> bool" where
  "truthy JUndefined = False"
| "truthy JNull = False"
| "truthy (JBool b) = b"
| "truthy (JNum n) = num_truthy n"
| "truthy (JStr s) = (s \<noteq> [])"
| "truthy (JArr vs) = True"
| "truthy (JObj kvs) = True"

text \<open>
  Members of an object are kept in insertion order; a later member of the same name
  overrides an earlier one. \<open>get_prop v k\<close> is the property read \<open>v.k\<close>, which throws on
  \<open>null\<close> and \<open>undefined\<close> and is \<open>undefined\<close> on the other primitives and on arrays (the
  names read by this library are no properties of their prototypes). \<open>get_prop_opt\<close> is
  the optional chaining \<open>v?.k\<close>.
\<close>

fun get_prop :: "js \<Rightarrow> string \<Rightarrow> error + js" where
  "get_prop JUndefined k = Inl TypeError"
| "get_prop JNull k = Inl TypeError"
| "get_prop (JObj kvs) k =
     Inr (case map_of (rev kvs) k of None \<Rightarrow> JUndefined | Some v \<Rightarrow> v)"
| "get_prop v k = Inr JUndefined"

fun get_prop_opt :: "js \<Rightarrow> string \<Rightarrow> js" where
  "get_prop_opt (JObj kvs) k =
     (case map_of (rev kvs) k of None \<Rightarrow> JUndefined | Some v \<Rightarrow> v)"
| "get_prop_opt v k = JUndefined"

section \<open>JSON.parse\<close>

text \<open>
  \<open>JSON.parse\<close> is the platform's parser of the JSON grammar (ECMA-404): a lexer to
  tokens, then a pushdown recogniser that builds the value.
\<close>

datatype token =
    TLBrace | TRBrace | TLBracket | TRBracket | TColon | TComma
  | TString string
  | TNumber number
  | TTrue | TFalse | TNull

definition is_ws :: "char \<Rightarrow> bool" where
  "is_ws c = (c = CHR 0x20 \<or> c = CHR 0x09 \<or> c = CHR 0x0A \<or> c = CHR 0x0D)"

definition is_digit :: "char \<Rightarrow> bool" where
  "is_digit c = (48 \<le> (of_char c :: nat) \<and> (of_char c :: nat) \<le> 57)"

definition digit_val :: "char \<Rightarrow> nat" where
  "digit_val c = of_char c - 48"

definition digits_val :: "string \<Rightarrow> nat" where
  "digits_val ds = foldl (\<lambda>n c. 10 * n + digit_val c) 0 ds"

definition hex_val :: "char \<Rightarrow> nat option" where
  "hex_val c =
     (let n = (of_char c :: nat) in
      if 48 \<le> n \<and> n \<le> 57 then Some (n - 48)
      else if 65 \<le> n \<and> n \<le> 70 then Some (n - 55)
      else if 97 \<le> n \<and> n \<le> 102 then Some (n - 87)
      else None)"

text \<open>The four hexadecimal digits of a \<open>\<bslash>uXXXX\<close> escape, as a UTF-16 code unit.\<close>

fun hex4 :: "string \<Rightarrow> nat option" where
  "hex4 (a # b # c # d # cs) =
     (case (hex_val a, hex_val b, hex_val c, hex_val d) of
        (Some x, Some y, Some z, Some w) \<Rightarrow> Some (((x * 16 + y) * 16 + z) * 16 + w)
      | _ \<Rightarrow> None)"
| "hex4 cs = None"

text \<open>The UTF-8 bytes of a code point (a lone surrogate keeps its three-byte form).\<close>

definition utf8 :: "nat \<Rightarrow> string" where
  "utf8 n =
     (if n < 0x80 then [char_of n]
      else if n < 0x800 then [char_of (0xC0 + n div 64), char_of (0x80 + n mod 64)]
      else if n < 0x10000 then
        [char_of (0xE0 + n div 4096), char_of (0x80 + n div 64 mod 64),
         char_of (0x80 + n mod 64)]
      else
        [char_of (0xF0 + n div 262144), char_of (0x80 + n div 4096 mod 64),
         char_of (0x80 + n div 64 mod 64), char_of (0x80 + n mod 64)])"

definition is_high_surrogate :: "nat \<Rightarrow> bool" where
  "is_high_surrogate n = (0xD800 \<le> n \<and> n < 0xDC00)"

definition is_low_surrogate :: "nat \<Rightarrow> bool" where
  "is_low_surrogate n = (0xDC00 \<le> n \<and> n < 0xE000)"

text \<open>After \<open>\<bslash>uXXXX\<close> with a high surrogate: the low surrogate of a following
  \<open>\<bslash>uYYYY\<close>, if there is one.\<close>

fun low_surrogate_escape :: "string \<Rightarrow> nat option" where
  "low_surrogate_escape (b # u # cs) =
     (if b = CHR 0x5C \<and> u = CHR ''u'' then
        (case hex4 cs of
           Some m \<Rightarrow> if is_low_surrogate m then Some m else None
         | None \<Rightarrow> None)
      else None)"
| "low_surrogate_escape cs = None"

definition simple_escape :: "char \<Rightarrow> char option" where
  "simple_escape e =
     (if e = CHR 0x22 then Some (CHR 0x22)
      else if e = CHR 0x5C then Some (CHR 0x5C)
      else if e = CHR ''/'' then Some (CHR ''/'')
      else if e = CHR ''b'' then Some (CHR 0x08)
      else if e = CHR ''f'' then Some (CHR 0x0C)
      else if e = CHR ''n'' then Some (CHR 0x0A)
      else if e = CHR ''r'' then Some (CHR 0x0D)
      else if e = CHR ''t'' then Some (CHR 0x09)
      else None)"

text \<open>
  \<open>lex_string acc cs\<close> reads a string literal after its opening quote: the decoded
  contents and the input after the closing quote. \<open>acc\<close> holds the contents read so far,
  reversed.
\<close>

fun lex_string :: "string \<Rightarrow> string \<Rightarrow> (string \<times> string) option" where
  "lex_string acc [] = None"
| "lex_string acc (c # cs) =
     (if c = CHR 0x22 then Some (rev acc, cs)
      else if c = CHR 0x5C then
        (case cs of
           [] \<Rightarrow> None
         | e # cs' \<Rightarrow>
             if e = CHR ''u'' then
               (case hex4 cs' of
                  None \<Rightarrow> None
                | Some n \<Rightarrow>
                    (case (if is_high_surrogate n then low_surrogate_escape (drop 4 cs')
                           else None) of
                       Some m \<Rightarrow>
                         lex_string
                           (rev (utf8 (0x10000 + (n - 0xD800) * 0x400 + (m - 0xDC00))) @ acc)
                           (drop 10 cs')
                     | None \<Rightarrow> lex_string (rev (utf8 n) @ acc) (drop 4 cs')))
             else
               (case simple_escape e of
                  None \<Rightarrow> None
                | Some ch \<Rightarrow> lex_string (ch # acc) cs'))
      else if (of_char c :: nat) < 0x20 then None
      else lex_string (c # acc) cs)"

text \<open>
  \<open>lex_number cs\<close> reads a number literal: \<open>-? (0 | [1-9][0-9]*) (. [0-9]+)? ([eE] [+-]? [0-9]+)?\<close>.
\<close>

definition lex_exponent :: "string \<Rightarrow> (int \<times> string) option" where
  "lex_exponent cs =
     (case cs of
        [] \<Rightarrow> Some (0, cs)
      | c # cs1 \<Rightarrow>
          if c = CHR ''e'' \<or> c = CHR ''E'' then
            (let (neg, cs2) =
                   (case cs1 of
                      [] \<Rightarrow> (False, cs1)
                    | s # cs2 \<Rightarrow>
                        if s = CHR ''-'' then (True, cs2)
                        else if s = CHR ''+'' then (False, cs2)
                        else (False, cs1));
                 ds = takeWhile is_digit cs2
             in if ds = [] then None
                else Some ((if neg then - int (digits_val ds) else int (digits_val ds)),
                           dropWhile is_digit cs2))
          else Some (0, cs))"

definition lex_fraction :: "string \<Rightarrow> (string \<times> string) option" where
  "lex_fraction cs =
     (case cs of
        [] \<Rightarrow> Some ([], cs)
      | c # cs1 \<Rightarrow>
          if c = CHR ''.'' then
            (let ds = takeWhile is_digit cs1
             in if ds = [] then None else Some (ds, dropWhile is_digit cs1))
          else Some ([], cs))"

definition lex_integer :: "string \<Rightarrow> (string \<times> string) option" where
  "lex_integer cs =
     (case cs of
        [] \<Rightarrow> None
      | c # cs1 \<Rightarrow>
          if c = CHR ''0'' then Some ([c], cs1)
          else if is_digit c then Some (c # takeWhile is_digit cs1, dropWhile is_digit cs1)
          else None)"

definition lex_number :: "string \<Rightarrow> (number \<times> string) option" where
  "lex_number cs =
     (let (neg, cs0) = (case cs of c # cs' \<Rightarrow> if c = CHR ''-'' then (True, cs') else (False, cs)
                        | [] \<Rightarrow> (False, cs))
      in case lex_integer cs0 of
           None \<Rightarrow> None
         | Some (ids, cs1) \<Rightarrow>
             (case lex_fraction cs1 of
                None \<Rightarrow> None
              | Some (fds, cs2) \<Rightarrow>
                  (case lex_exponent cs2 of
                     None \<Rightarrow> None
                   | Some (ex, cs3) \<Rightarrow>
                       Some (Num ((if neg then - 1 else 1) * int (digits_val (ids @ fds)))
                                 (ex - int (length fds)),
                             cs3))))"

lemma lex_string_shorter:
  "lex_string acc cs = Some (s, rest) \<Longrightarrow> length rest < length cs"
proof (induction acc cs arbitrary: s rest rule: lex_string.induct)
  case (1 acc)
  then show ?case by simp
next
  case (2 acc c cs)
  note IH = "2.IH" and prems = "2.prems"
  show ?case
  proof (cases "c = CHR 0x22")
    case True
    with prems show ?thesis by simp
  next
    case notq: False
    show ?thesis
    proof (cases "c = CHR 0x5C")
      case False
      with notq prems have r: "lex_string (c # acc) cs = Some (s, rest)" and nc: "\<not> (of_char c :: nat) < 0x20"
        by (simp_all split: if_splits)
      from IH(4)[OF notq False nc r] have "length rest < length cs" .
      then show ?thesis by simp
    next
      case bs: True
      show ?thesis
      proof (cases cs)
        case Nil
        with notq bs prems show ?thesis by simp
      next
        case (Cons e cs')
        show ?thesis
        proof (cases "e = CHR ''u''")
          case False
          with notq bs Cons prems obtain ch where
            ch: "simple_escape e = Some ch" and r: "lex_string (ch # acc) cs' = Some (s, rest)"
            by (simp split: option.splits)
          from IH(3)[OF notq bs Cons False ch r] have "length rest < length cs'" .
          with Cons show ?thesis by simp
        next
          case u: True
          with notq bs Cons prems obtain n where n: "hex4 cs' = Some n"
            by (simp split: option.splits)
          show ?thesis
          proof (cases "if is_high_surrogate n then low_surrogate_escape (drop 4 cs') else None")
            case None
            with notq bs Cons u n prems
            have r: "lex_string (rev (utf8 n) @ acc) (drop 4 cs') = Some (s, rest)"
              by simp
            from IH(1)[OF notq bs Cons u n None r]
            have "length rest < length (drop 4 cs')" .
            with Cons show ?thesis by simp
          next
            case (Some m)
            with notq bs Cons u n prems
            have r: "lex_string
                       (rev (utf8 (0x10000 + (n - 0xD800) * 0x400 + (m - 0xDC00))) @ acc)
                       (drop 10 cs') = Some (s, rest)"
              by simp
            from IH(2)[OF notq bs Cons u n Some r]
            have "length rest < length (drop 10 cs')" .
            with Cons show ?thesis by simp
          qed
        qed
      qed
    qed
  qed
qed

lemma lex_integer_shorter:
  "lex_integer cs = Some (ds, rest) \<Longrightarrow> length rest < length cs"
  by (auto simp: lex_integer_def less_Suc_eq_le length_dropWhile_le
           split: list.splits if_splits)

lemma lex_fraction_shorter:
  "lex_fraction cs = Some (ds, rest) \<Longrightarrow> length rest \<le> length cs"
  by (auto simp: lex_fraction_def Let_def le_SucI length_dropWhile_le
           split: list.splits if_splits)

lemma lex_exponent_shorter:
  "lex_exponent cs = Some (ex, rest) \<Longrightarrow> length rest \<le> length cs"
  by (auto simp: lex_exponent_def Let_def le_SucI length_dropWhile_le
           split: list.splits if_splits prod.splits)

lemma lex_number_shorter:
  assumes "lex_number cs = Some (n, rest)"
  shows "length rest < length cs"
proof -
  obtain neg cs0 where c0:
    "(case cs of c # cs' \<Rightarrow> if c = CHR ''-'' then (True, cs') else (False, cs)
      | [] \<Rightarrow> (False, cs)) = (neg, cs0)"
    by (cases "(case cs of c # cs' \<Rightarrow> if c = CHR ''-'' then (True, cs') else (False, cs)
      | [] \<Rightarrow> (False, cs))") auto
  then have le0: "length cs0 \<le> length cs"
    by (auto split: list.splits if_splits)
  from assms c0 obtain ids cs1 fds cs2 ex where
    i: "lex_integer cs0 = Some (ids, cs1)" and
    f: "lex_fraction cs1 = Some (fds, cs2)" and
    e: "lex_exponent cs2 = Some (ex, rest)"
    by (auto simp: lex_number_def split: option.splits)
  from lex_integer_shorter[OF i] lex_fraction_shorter[OF f] lex_exponent_shorter[OF e] le0
  show ?thesis by linarith
qed

function lex :: "string \<Rightarrow> token list option" where
  "lex [] = Some []"
| "lex (c # cs) =
     (if is_ws c then lex cs
      else if c = CHR ''{'' then map_option (Cons TLBrace) (lex cs)
      else if c = CHR ''}'' then map_option (Cons TRBrace) (lex cs)
      else if c = CHR ''['' then map_option (Cons TLBracket) (lex cs)
      else if c = CHR '']'' then map_option (Cons TRBracket) (lex cs)
      else if c = CHR '':'' then map_option (Cons TColon) (lex cs)
      else if c = CHR '','' then map_option (Cons TComma) (lex cs)
      else if c = CHR 0x22 then
        (case lex_string [] cs of
           None \<Rightarrow> None
         | Some (s, rest) \<Rightarrow> map_option (Cons (TString s)) (lex rest))
      else if c = CHR ''-'' \<or> is_digit c then
        (case lex_number (c # cs) of
           None \<Rightarrow> None
         | Some (n, rest) \<Rightarrow> map_option (Cons (TNumber n)) (lex rest))
      else if take 4 (c # cs) = ''true'' then map_option (Cons TTrue) (lex (drop 3 cs))
      else if take 5 (c # cs) = ''false'' then map_option (Cons TFalse) (lex (drop 4 cs))
      else if take 4 (c # cs) = ''null'' then map_option (Cons TNull) (lex (drop 3 cs))
      else None)"
  by pat_completeness auto
termination
proof (relation "measure length", goal_cases)
  case 1 show ?case by simp
next
  case 2 show ?case by simp
next
  case 3 show ?case by simp
next
  case 4 show ?case by simp
next
  case 5 show ?case by simp
next
  case 6 show ?case by simp
next
  case 7 show ?case by simp
next
  case 8 show ?case by simp
next
  case (9 c cs x2 x y)
  then have "lex_string [] cs = Some (x, y)" by simp
  from lex_string_shorter[OF this] show ?case by simp
next
  case (10 c cs x2 x y)
  then have "lex_number (c # cs) = Some (x, y)" by simp
  from lex_number_shorter[OF this] show ?case by simp
next
  case 11 show ?case by (simp add: less_Suc_eq_le)
next
  case 12 show ?case by (simp add: less_Suc_eq_le)
next
  case 13 show ?case by (simp add: less_Suc_eq_le)
qed

text \<open>The recogniser: a stack of the containers that are open, and what may come next.\<close>

datatype frame =
    InArr "js list"
  | InObj "(string \<times> js) list"
  | InMember "(string \<times> js) list" string

datatype expect =
    ExpValue
  | ExpValueOrEnd
  | ExpKeyOrEnd
  | ExpKey
  | ExpColon
  | ExpCommaOrEnd
  | Finished js

text \<open>A complete value goes to the container on top of the stack, or is the result.\<close>

fun deliver :: "js \<Rightarrow> frame list \<Rightarrow> (expect \<times> frame list) option" where
  "deliver v [] = Some (Finished v, [])"
| "deliver v (InArr vs # st) = Some (ExpCommaOrEnd, InArr (v # vs) # st)"
| "deliver v (InMember kvs k # st) = Some (ExpCommaOrEnd, InObj ((k, v) # kvs) # st)"
| "deliver v (InObj kvs # st) = None"

fun scalar :: "token \<Rightarrow> js option" where
  "scalar (TString s) = Some (JStr s)"
| "scalar (TNumber n) = Some (JNum n)"
| "scalar TTrue = Some (JBool True)"
| "scalar TFalse = Some (JBool False)"
| "scalar TNull = Some JNull"
| "scalar t = None"

definition start_value :: "token \<Rightarrow> frame list \<Rightarrow> (expect \<times> frame list) option" where
  "start_value t st =
     (if t = TLBracket then Some (ExpValueOrEnd, InArr [] # st)
      else if t = TLBrace then Some (ExpKeyOrEnd, InObj [] # st)
      else case scalar t of None \<Rightarrow> None | Some v \<Rightarrow> deliver v st)"

definition close_array :: "frame list \<Rightarrow> (expect \<times> frame list) option" where
  "close_array st =
     (case st of InArr vs # st' \<Rightarrow> deliver (JArr (rev vs)) st' | _ \<Rightarrow> None)"

definition close_object :: "frame list \<Rightarrow> (expect \<times> frame list) option" where
  "close_object st =
     (case st of InObj kvs # st' \<Rightarrow> deliver (JObj (rev kvs)) st' | _ \<Rightarrow> None)"

definition read_key :: "token \<Rightarrow> frame list \<Rightarrow> (expect \<times> frame list) option" where
  "read_key t st =
     (case (t, st) of
        (TString k, InObj kvs # st') \<Rightarrow> Some (ExpColon, InMember kvs k # st')
      | _ \<Rightarrow> None)"

fun step :: "expect \<Rightarrow> frame list \<Rightarrow> token \<Rightarrow> (expect \<times> frame list) option" where
  "step ExpValue st t = start_value t st"
| "step ExpValueOrEnd st t = (if t = TRBracket then close_array st else start_value t st)"
| "step ExpKeyOrEnd st t = (if t = TRBrace then close_object st else read_key t st)"
| "step ExpKey st t = read_key t st"
| "step ExpColon st t = (if t = TColon then Some (ExpValue, st) else None)"
| "step ExpCommaOrEnd st t =
     (case st of
        InArr vs # st' \<Rightarrow>
          if t = TComma then Some (ExpValue, st)
          else if t = TRBracket then close_array st
          else None
      | InObj kvs # st' \<Rightarrow>
          if t = TComma then Some (ExpKey, st)
          else if t = TRBrace then close_object st
          else None
      | _ \<Rightarrow> None)"
| "step (Finished v) st t = None"

fun parse_tokens :: "expect \<Rightarrow> frame list \<Rightarrow> token list \<Rightarrow> js option" where
  "parse_tokens (Finished v) [] [] = Some v"
| "parse_tokens ex st [] = None"
| "parse_tokens ex st (t # ts) =
     (case step ex st t of None \<Rightarrow> None | Some (ex', st') \<Rightarrow> parse_tokens ex' st' ts)"

definition JSON_parse :: "string \<Rightarrow> error + js" where
  "JSON_parse s =
     (case lex s of
        None \<Rightarrow> Inl SyntaxError
      | Some ts \<Rightarrow>
          (case parse_tokens ExpValue [] ts of None \<Rightarrow> Inl SyntaxError | Some v \<Rightarrow> Inr v))"

section \<open>Requests, responses and configuration\<close>

text \<open>
  \<open>process.env\<close> is a map from variable names to strings. An incoming \<open>Request\<close> has its
  method, its headers (a \<open>Headers\<close> object: \<open>get\<close> by lower-case name, \<open>null\<close> when the
  header is not there) and its body, the bytes received, \<open>null\<close> when the request has
  none. A \<open>Response\<close> has a status and an optional text.
\<close>

type_synonym env = "string \<rightharpoonup> string"

record request =
  req_method :: string
  headers :: "string \<rightharpoonup> string"
  body :: "string option"

record response =
  status :: nat
  message :: "string option"

definition Response :: "string option \<Rightarrow> nat \<Rightarrow> response" where
  "Response msg st = \<lparr>status = st, message = msg\<rparr>"

text \<open>\<open>!x\<close> for \<open>x\<close> a string or \<open>undefined\<close>/\<open>null\<close>: true when there is no string
  or it is empty.\<close>

definition absent :: "string option \<Rightarrow> bool" where
  "absent x = (case x of None \<Rightarrow> True | Some s \<Rightarrow> s = [])"

text \<open>
  \<open>await req.text()\<close> is the UTF-8 decoding of the body's bytes (the Fetch standard's
  \<open>text()\<close>, the Encoding standard's \<open>UTF-8 decode\<close>): a leading byte order mark is
  dropped, and every malformed sequence becomes U+FFFD. The decoded string is represented
  by its UTF-8 bytes, so a well-formed sequence is copied and an error is the three bytes
  of U+FFFD. The decoder keeps the standard's state: the number of bytes still needed, the
  bytes of the sequence seen so far (in place of the code point they add up to) and the
  bounds of the next byte.
\<close>

record decoder_state =
  bytes_needed :: nat
  bytes_seen :: string
  lower_boundary :: nat
  upper_boundary :: nat

definition initial_state :: decoder_state where
  "initial_state =
     \<lparr>bytes_needed = 0, bytes_seen = [], lower_boundary = 0x80, upper_boundary = 0xBF\<rparr>"

definition replacement :: string where
  "replacement = [CHR 0xEF, CHR 0xBF, CHR 0xBD]"

definition byte_order_mark :: string where
  "byte_order_mark = [CHR 0xEF, CHR 0xBB, CHR 0xBF]"

text \<open>A byte read when no sequence is open: what is written, and the next state.\<close>

definition decoder_start :: "char \<Rightarrow> string \<times> decoder_state" where
  "decoder_start b =
     (let n = (of_char b :: nat) in
      if n \<le> 0x7F then ([b], initial_state)
      else if 0xC2 \<le> n \<and> n \<le> 0xDF then
        ([], \<lparr>bytes_needed = 1, bytes_seen = [b], lower_boundary = 0x80,
              upper_boundary = 0xBF\<rparr>)
      else if 0xE0 \<le> n \<and> n \<le> 0xEF then
        ([], \<lparr>bytes_needed = 2, bytes_seen = [b],
              lower_boundary = (if n = 0xE0 then 0xA0 else 0x80),
              upper_boundary = (if n = 0xED then 0x9F else 0xBF)\<rparr>)
      else if 0xF0 \<le> n \<and> n \<le> 0xF4 then
        ([], \<lparr>bytes_needed = 3, bytes_seen = [b],
              lower_boundary = (if n = 0xF0 then 0x90 else 0x80),
              upper_boundary = (if n = 0xF4 then 0x8F else 0xBF)\<rparr>)
      else (replacement, initial_state))"

text \<open>A byte read in any state. A byte outside the bounds ends the open sequence with an
  error and is read again as the first byte of a new one.\<close>

definition decoder_step :: "decoder_state \<Rightarrow> char \<Rightarrow> string \<times> decoder_state" where
  "decoder_step st b =
     (let n = (of_char b :: nat) in
      if bytes_needed st = 0 then decoder_start b
      else if n < lower_boundary st \<or> upper_boundary st < n then
        (replacement @ fst (decoder_start b), snd (decoder_start b))
      else if bytes_needed st = 1 then (bytes_seen st @ [b], initial_state)
      else
        ([], \<lparr>bytes_needed = bytes_needed st - 1, bytes_seen = bytes_seen st @ [b],
              lower_boundary = 0x80, upper_boundary = 0xBF\<rparr>))"

fun decoder_run :: "decoder_state \<Rightarrow> string \<Rightarrow> string" where
  "decoder_run st [] = (if bytes_needed st \<noteq> 0 then replacement else [])"
| "decoder_run st (b # bs) =
     fst (decoder_step st b) @ decoder_run (snd (decoder_step st b)) bs"

definition utf8_decode :: "string \<Rightarrow> string" where
  "utf8_decode bs =
     decoder_run initial_state (if take 3 bs = byte_order_mark then drop 3 bs else bs)"

definition is_ascii :: "string \<Rightarrow> bool" where
  "is_ascii s = list_all (\<lambda>c. (of_char c :: nat) \<le> 0x7F) s"

text \<open>\<open>await req.text()\<close>: the decoded body, empty when there is no body.\<close>

definition text_of :: "request \<Rightarrow> string" where
  "text_of req = (case body req of None \<Rightarrow> [] | Some b \<Rightarrow> utf8_decode b)"

section \<open>Signatures\<close>

text \<open>
  \<open>createHmac("sha256", key).update(msg)\<close> of \<open>node:crypto\<close> is a parameter of the
  handlers: a function \<open>H key msg\<close> to the 256 bits of the MAC. \<open>digest("hex")\<close> writes them
  as 64 lower-case hexadecimal digits, most significant first.
\<close>

type_synonym hmac = "string \<Rightarrow> string \<Rightarrow> 256 word"

definition hex_char :: "nat \<Rightarrow> char" where
  "hex_char n = ''0123456789abcdef'' ! n"

definition digest_hex :: "256 word \<Rightarrow> string" where
  "digest_hex w = map (\<lambda>i. hex_char (unat (take_bit 4 (drop_bit (4 * (63 - i)) w)))) [0..<64]"

text \<open>\<open>Buffer.from(s, "utf8")\<close> throws a TypeError on \<open>null\<close>; \<open>timingSafeEqual\<close> throws
  a RangeError when the byte lengths differ.\<close>

definition Buffer_from :: "string option \<Rightarrow> error + string" where
  "Buffer_from x = (case x of None \<Rightarrow> Inl TypeError | Some s \<Rightarrow> Inr s)"

definition timingSafeEqual :: "string \<Rightarrow> string \<Rightarrow> error + bool" where
  "timingSafeEqual a b = (if length a \<noteq> length b then Inl RangeError else Inr (a = b))"

section \<open>Webhook handlers\<close>

text \<open>
  Each handler is the source's \<open>webhookHandler\<close>. The \<open>switch\<close> on the event type has
  only empty branches in every provider, so what remains of it is the read of the event
  type, which throws when the parsed value is \<open>null\<close>. The body of a \<open>try\<close> is a function
  to \<open>error + response\<close>; the \<open>catch\<close> turns every error into the handler's 400.
\<close>

subsection \<open>Stripe\<close>

definition stripe_try :: "request \<Rightarrow> error + response" where
  "stripe_try req =
     (case JSON_parse (text_of req) of
        Inl e \<Rightarrow> Inl e
      | Inr event \<Rightarrow>
          (case get_prop event ''type'' of
             Inl e \<Rightarrow> Inl e
           | Inr ty \<Rightarrow> Inr (Response None 200)))"

definition stripe_webhookHandler :: "env \<Rightarrow> request \<Rightarrow> response" where
  "stripe_webhookHandler env req =
     (if absent (env ''STRIPE_WEBHOOK_SECRET'') then
        Response (Some ''Missing STRIPE_WEBHOOK_SECRET'') 500
      else if body req = None then Response (Some ''Invalid request'') 400
      else if absent (headers req ''stripe-signature'') then
        Response (Some ''Missing stripe-signature header'') 400
      else
        (case stripe_try req of
           Inl e \<Rightarrow> Response (Some ''Invalid webhook payload'') 400
         | Inr r \<Rightarrow> r))"

subsection \<open>Polar\<close>

definition polar_try :: "request \<Rightarrow> error + response" where
  "polar_try req =
     (case JSON_parse (text_of req) of
        Inl e \<Rightarrow> Inl e
      | Inr event \<Rightarrow>
          (case get_prop event ''type'' of
             Inl e \<Rightarrow> Inl e
           | Inr ty \<Rightarrow> Inr (Response None 202)))"

definition polar_webhookHandler :: "env \<Rightarrow> request \<Rightarrow> response" where
  "polar_webhookHandler env req =
     (if absent (env ''POLAR_WEBHOOK_SECRET'') then
        Response (Some ''Missing POLAR_WEBHOOK_SECRET'') 500
      else if body req = None then Response (Some ''No body'') 400
      else
        (case polar_try req of
           Inl e \<Rightarrow> Response (Some ''Invalid webhook payload'') 400
         | Inr r \<Rightarrow> r))"

subsection \<open>Console and Custom\<close>

definition console_webhookHandler :: "request \<Rightarrow> response" where
  "console_webhookHandler req = Response None 200"

definition custom_webhookHandler :: "request \<Rightarrow> error + response" where
  "custom_webhookHandler req = Inl (Error ''Custom webhookHandler not implemented'')"

subsection \<open>LemonSqueezy\<close>

definition lemonsqueezy_try :: "hmac \<Rightarrow> string \<Rightarrow> request \<Rightarrow> error + response" where
  "lemonsqueezy_try H webhookSecret req =
     (let text = text_of req in
      case Buffer_from (Some (digest_hex (H webhookSecret text))) of
        Inl e \<Rightarrow> Inl e
      | Inr digest \<Rightarrow>
          (case Buffer_from (headers req ''x-signature'') of
             Inl e \<Rightarrow> Inl e
           | Inr signature \<Rightarrow>
               (case timingSafeEqual digest signature of
                  Inl e \<Rightarrow> Inl e
                | Inr same \<Rightarrow>
                    if \<not> same then Inr (Response (Some ''Invalid signature'') 400)
                    else
                      (case JSON_parse text of
                         Inl e \<Rightarrow> Inl e
                       | Inr payload \<Rightarrow>
                           (case get_prop payload ''meta'' of
                              Inl e \<Rightarrow> Inl e
                            | Inr meta \<Rightarrow>
                                (case get_prop meta ''event_name'' of
                                   Inl e \<Rightarrow> Inl e
                                 | Inr event_name \<Rightarrow> Inr (Response None 204)))))))"

definition lemonsqueezy_webhookHandler :: "hmac \<Rightarrow> env \<Rightarrow> request \<Rightarrow> response" where
  "lemonsqueezy_webhookHandler H env req =
     (case env ''LEMONSQUEEZY_WEBHOOK_SECRET'' of
        None \<Rightarrow> Response (Some ''Missing LEMONSQUEEZY_WEBHOOK_SECRET'') 500
      | Some webhookSecret \<Rightarrow>
          if webhookSecret = [] then
            Response (Some ''Missing LEMONSQUEEZY_WEBHOOK_SECRET'') 500
          else
            (case lemonsqueezy_try H webhookSecret req of
               Inl e \<Rightarrow> Response (Some ''Invalid webhook payload'') 400
             | Inr r \<Rightarrow> r))"

subsection \<open>Creem\<close>

definition creem_try :: "string \<Rightarrow> error + response" where
  "creem_try bodyText =
     (case JSON_parse bodyText of
        Inl e \<Rightarrow> Inl e
      | Inr payload \<Rightarrow>
          (case get_prop payload ''eventType'' of
             Inl e \<Rightarrow> Inl e
           | Inr eventType \<Rightarrow> Inr (Response None 204)))"

definition creem_webhookHandler :: "hmac \<Rightarrow> env \<Rightarrow> request \<Rightarrow> response" where
  "creem_webhookHandler H env req =
     (if req_method req \<noteq> ''POST'' then Response (Some ''Method not allowed'') 405
      else
        (case headers req ''creem-signature'' of
           None \<Rightarrow> Response (Some ''Missing signature'') 400
         | Some signature \<Rightarrow>
             if signature = [] then Response (Some ''Missing signature'') 400
             else
               (case env ''CREEM_WEBHOOK_SECRET'' of
                  None \<Rightarrow> Response (Some ''Missing CREEM_WEBHOOK_SECRET'') 500
                | Some secret \<Rightarrow>
                    if secret = [] then Response (Some ''Missing CREEM_WEBHOOK_SECRET'') 500
                    else
                      (let bodyText = text_of req;
                           computedSignature = digest_hex (H secret bodyText)
                       in if computedSignature \<noteq> signature then
                            Response (Some ''Invalid signature'') 400
                          else
                            (case creem_try bodyText of
                               Inl e \<Rightarrow> Response (Some ''Invalid webhook payload'') 400
                             | Inr r \<Rightarrow> r)))))"

subsection \<open>DodoPayments\<close>

definition dodopayments_try :: "hmac \<Rightarrow> string \<Rightarrow> request \<Rightarrow> error + response" where
  "dodopayments_try H webhookSecret req =
     (let body = text_of req in
      case (headers req ''webhook-id'', headers req ''webhook-signature'',
            headers req ''webhook-timestamp'') of
        (Some webhookId, Some webhookSignature, Some webhookTimestamp) \<Rightarrow>
          if webhookId = [] \<or> webhookSignature = [] \<or> webhookTimestamp = [] then
            Inr (Response (Some ''Missing webhook headers'') 400)
          else
            (let payload = webhookId @ ''.'' @ webhookTimestamp @ ''.'' @ body;
                 expectedSignature = digest_hex (H webhookSecret payload)
             in if webhookSignature \<noteq> expectedSignature then
                  Inr (Response (Some ''Invalid webhook signature'') 401)
                else
                  (case JSON_parse body of
                     Inl e \<Rightarrow> Inl e
                   | Inr event \<Rightarrow>
                       (case get_prop event ''type'' of
                          Inl e \<Rightarrow> Inl e
                        | Inr ty \<Rightarrow> Inr (Response None 204))))
      | _ \<Rightarrow> Inr (Response (Some ''Missing webhook headers'') 400))"

definition dodopayments_webhookHandler :: "hmac \<Rightarrow> env \<Rightarrow> request \<Rightarrow> response" where
  "dodopayments_webhookHandler H env req =
     (case env ''DODO_PAYMENTS_WEBHOOK_SECRET'' of
        None \<Rightarrow> Response (Some ''Missing DODO_PAYMENTS_WEBHOOK_SECRET'') 500
      | Some webhookSecret \<Rightarrow>
          if webhookSecret = [] then
            Response (Some ''Missing DODO_PAYMENTS_WEBHOOK_SECRET'') 500
          else if body req = None then Response (Some ''Invalid request'') 400
          else
            (case dodopayments_try H webhookSecret req of
               Inl e \<Rightarrow> Response (Some ''Invalid webhook payload'') 400
             | Inr r \<Rightarrow> r))"

subsection \<open>Tap\<close>

record TapSavedCardResult =
  customerId :: js
  cardId :: js
  paymentAgreementId :: js

text \<open>\<open>extractSavedCardFromWebhook\<close>: the three identifiers of a saved card, or \<open>null\<close>
  (here \<open>None\<close>) when one of them is falsy.\<close>

definition extractSavedCardFromWebhook :: "js \<Rightarrow> error + TapSavedCardResult option" where
  "extractSavedCardFromWebhook webhookData =
     (case get_prop webhookData ''card'' of
        Inl e \<Rightarrow> Inl e
      | Inr card_obj \<Rightarrow>
          (case get_prop webhookData ''customer'' of
             Inl e \<Rightarrow> Inl e
           | Inr customer \<Rightarrow>
               (case get_prop webhookData ''payment_agreement'' of
                  Inl e \<Rightarrow> Inl e
                | Inr paymentAgreement \<Rightarrow>
                    if \<not> truthy (get_prop_opt card_obj ''id'')
                       \<or> \<not> truthy (get_prop_opt customer ''id'')
                       \<or> \<not> truthy (get_prop_opt paymentAgreement ''id'')
                    then Inr None
                    else
                      (case get_prop customer ''id'' of
                         Inl e \<Rightarrow> Inl e
                       | Inr customer_id \<Rightarrow>
                           (case get_prop card_obj ''id'' of
                              Inl e \<Rightarrow> Inl e
                            | Inr card_id \<Rightarrow>
                                (case get_prop paymentAgreement ''id'' of
                                   Inl e \<Rightarrow> Inl e
                                 | Inr agreement_id \<Rightarrow>
                                     Inr (Some \<lparr>customerId = customer_id, cardId = card_id,
                                                paymentAgreementId = agreement_id\<rparr>)))))))"

text \<open>\<open>saved_id payload k\<close> is \<open>payload.k?.id\<close>, the identifier that
  \<open>extractSavedCardFromWebhook\<close> looks for under the member \<open>k\<close>.\<close>

definition saved_id :: "js \<Rightarrow> string \<Rightarrow> js" where
  "saved_id payload k = get_prop_opt (get_prop_opt payload k) ''id''"

text \<open>
  The \<open>WebhookVerifier\<close> of the package \<open>@xyz/webhook-verifier\<close> is not part of this
  library: it is a parameter \<open>V\<close>, from the secret, the parsed payload and the headers to
  the verification result, or to an error when the verifier throws.
\<close>

record verification =
  isValid :: bool
  error_text :: string
  data :: js

type_synonym verifier = "string \<Rightarrow> js \<Rightarrow> (string \<rightharpoonup> string) \<Rightarrow> error + verification"

definition getTapVerifier ::
  "verifier \<Rightarrow> env \<Rightarrow> error + (js \<Rightarrow> (string \<rightharpoonup> string) \<Rightarrow> error + verification)" where
  "getTapVerifier V env =
     (case env ''TAP_WEBHOOK_SECRET'' of
        None \<Rightarrow> Inl (Error ''Missing TAP_WEBHOOK_SECRET'')
      | Some webhookSecret \<Rightarrow>
          if webhookSecret = [] then Inl (Error ''Missing TAP_WEBHOOK_SECRET'')
          else Inr (V webhookSecret))"

text \<open>The \<open>switch\<close> of the Tap handler: on \<open>CHARGE.CAPTURED\<close> it extracts the saved
  card from \<open>event.data\<close> and drops it.\<close>

definition tap_dispatch :: "js \<Rightarrow> error + unit" where
  "tap_dispatch event =
     (case get_prop event ''event'' of
        Inl e \<Rightarrow> Inl e
      | Inr ev \<Rightarrow>
          if ev = JStr ''CHARGE.CAPTURED'' then
            (case get_prop event ''data'' of
               Inl e \<Rightarrow> Inl e
             | Inr d \<Rightarrow>
                 (case extractSavedCardFromWebhook d of
                    Inl e \<Rightarrow> Inl e
                  | Inr savedCard \<Rightarrow> Inr ()))
          else Inr ())"

definition tap_try :: "verifier \<Rightarrow> env \<Rightarrow> request \<Rightarrow> error + response" where
  "tap_try V env req =
     (let body = text_of req in
      case getTapVerifier V env of
        Inl e \<Rightarrow> Inl e
      | Inr verify \<Rightarrow>
          (case JSON_parse body of
             Inl e \<Rightarrow> Inl e
           | Inr payload \<Rightarrow>
               (case verify payload (headers req) of
                  Inl e \<Rightarrow> Inl e
                | Inr result \<Rightarrow>
                    if \<not> isValid result then
                      Inr (Response (Some (''Invalid signature: '' @ error_text result)) 401)
                    else
                      (case tap_dispatch (data result) of
                         Inl e \<Rightarrow> Inl e
                       | Inr u \<Rightarrow> Inr (Response None 200)))))"

definition tap_webhookHandler :: "verifier \<Rightarrow> env \<Rightarrow> request \<Rightarrow> response" where
  "tap_webhookHandler V env req =
     (if body req = None then Response (Some ''Invalid request'') 400
      else
        (case tap_try V env req of
           Inl e \<Rightarrow> Response (Some ''Invalid webhook payload'') 400
         | Inr r \<Rightarrow> r))"

section \<open>Outbound calls\<close>

text \<open>
  \<open>fetch(url, init)\<close> is a parameter \<open>F\<close> of every function that calls a provider: from the
  call to the provider's response, or to an error when the promise is rejected. A function
  that calls a provider returns its result together with the calls it has made, in order.
  \<open>JsonBody v\<close> is the body \<open>JSON.stringify(v)\<close> (which leaves out the members of an object
  that are \<open>undefined\<close>); \<open>FormBody\<close> is a \<open>URLSearchParams\<close>.
\<close>

datatype payload = NoBody | JsonBody js | FormBody "(string \<times> string) list"

record fetch_call =
  url :: string
  http_method :: string
  http_headers :: "(string \<times> string) list"
  payload :: payload

record http_response =
  ok :: bool
  response_text :: string

type_synonym fetch = "fetch_call \<Rightarrow> error + http_response"

text \<open>\<open>await response.json()\<close>.\<close>

definition response_json :: "http_response \<Rightarrow> error + js" where
  "response_json r = JSON_parse (response_text r)"

text \<open>
  The check that follows every call:
  \<open>if (!response.ok) { const error = await response.json(); throw new Error(`${prefix}${JSON.stringify(error)}`) }\<close>
  and then \<open>await response.json()\<close>.
\<close>

definition json_or_throw :: "string \<Rightarrow> http_response \<Rightarrow> error + js" where
  "json_or_throw prefix r =
     (if \<not> ok r then
        (case response_json r of Inl e \<Rightarrow> Inl e | Inr err \<Rightarrow> Inl (ApiError prefix err))
      else response_json r)"

text \<open>The getters of a required environment variable:
  \<open>if (!v) throw new Error("Missing env variable NAME")\<close>.\<close>

definition require_env :: "env \<Rightarrow> string \<Rightarrow> error + string" where
  "require_env env var =
     (case env var of
        None \<Rightarrow> Inl (Error (''Missing env variable '' @ var))
      | Some v \<Rightarrow> if v = [] then Inl (Error (''Missing env variable '' @ var)) else Inr v)"

definition getStripeSecretKey :: "env \<Rightarrow> error + string" where
  "getStripeSecretKey env = require_env env ''STRIPE_SECRET_KEY''"

definition getLemonSqueezyApiKey :: "env \<Rightarrow> error + string" where
  "getLemonSqueezyApiKey env = require_env env ''LEMONSQUEEZY_API_KEY''"

definition getLemonSqueezyStoreId :: "env \<Rightarrow> error + string" where
  "getLemonSqueezyStoreId env = require_env env ''LEMONSQUEEZY_STORE_ID''"

definition getPolarAccessToken :: "env \<Rightarrow> error + string" where
  "getPolarAccessToken env = require_env env ''POLAR_ACCESS_TOKEN''"

definition getCreemApiKey :: "env \<Rightarrow> error + string" where
  "getCreemApiKey env = require_env env ''CREEM_API_KEY''"

definition getDodoPaymentsApiKey :: "env \<Rightarrow> error + string" where
  "getDodoPaymentsApiKey env = require_env env ''DODO_PAYMENTS_API_KEY''"

definition getTapSecretKey :: "env \<Rightarrow> error + string" where
  "getTapSecretKey env = require_env env ''TAP_SECRET_KEY''"

definition getCreemApiUrl :: "env \<Rightarrow> string" where
  "getCreemApiUrl env =
     (if env ''NODE_ENV'' = Some ''production'' then ''https://api.creem.io/v1''
      else ''https://test-api.creem.io/v1'')"

definition getDodoPaymentsApiUrl :: "env \<Rightarrow> string" where
  "getDodoPaymentsApiUrl env =
     (if env ''NODE_ENV'' = Some ''production'' then ''https://api.dodopayments.com/v1''
      else ''https://api.dodopayments.com/test/v1'')"

section \<open>Checkout links\<close>

text \<open>
  \<open>CreateCheckoutLinkParams\<close> of \<open>types.ts\<close>. The two numbers are counts and are integers
  here. \<open>String_of_int\<close> is \<open>String(n)\<close> on an integer (below \<open>10 ^ 21\<close> in absolute value,
  where JavaScript writes all the digits).
\<close>

datatype payment_type = Subscription | OneTime

record CreateCheckoutLinkParams =
  ptype :: payment_type
  productId :: string
  email :: "string option"
  name :: "string option"
  redirectUrl :: "string option"
  customerId_opt :: "string option"
  organizationId :: "string option"
  userId :: "string option"
  trialPeriodDays :: "int option"
  seats :: "int option"

definition type_string :: "payment_type \<Rightarrow> string" where
  "type_string t = (case t of Subscription \<Rightarrow> ''subscription'' | OneTime \<Rightarrow> ''one-time'')"

definition digit_char :: "nat \<Rightarrow> char" where
  "digit_char n = ''0123456789'' ! n"

fun digits_of_nat :: "nat \<Rightarrow> string" where
  "digits_of_nat n =
     (if n < 10 then [digit_char n]
      else digits_of_nat (n div 10) @ [digit_char (n mod 10)])"

declare digits_of_nat.simps [simp del]

definition String_of_int :: "int \<Rightarrow> string" where
  "String_of_int i =
     (if i < 0 then CHR ''-'' # digits_of_nat (nat (- i)) else digits_of_nat (nat i))"

definition js_int :: "int \<Rightarrow> js" where
  "js_int i = JNum (Num i 0)"

text \<open>A string that may be \<open>undefined\<close>, as a value; \<open>x ?? d\<close>; \<open>if (x)\<close>; \<open>x || null\<close>
  and \<open>x || undefined\<close>.\<close>

definition js_opt :: "string option \<Rightarrow> js" where
  "js_opt x = (case x of None \<Rightarrow> JUndefined | Some s \<Rightarrow> JStr s)"

definition or_else :: "'a option \<Rightarrow> 'a \<Rightarrow> 'a" where
  "or_else x d = (case x of None \<Rightarrow> d | Some v \<Rightarrow> v)"

definition or_null :: "string option \<Rightarrow> js" where
  "or_null x = (if absent x then JNull else js_opt x)"

definition or_undefined :: "string option \<Rightarrow> js" where
  "or_undefined x = (if absent x then JUndefined else js_opt x)"

text \<open>The metadata object that several providers build:
  \<open>if (organizationId) metadata.organization_id = organizationId; if (userId) metadata.user_id = userId\<close>.\<close>

definition metadata_ids :: "CreateCheckoutLinkParams \<Rightarrow> (string \<times> js) list" where
  "metadata_ids params =
     (if absent (organizationId params) then []
      else [(''organization_id'', js_opt (organizationId params))])
     @ (if absent (userId params) then [] else [(''user_id'', js_opt (userId params))])"

text \<open>\<open>name?.split(" ")[0] ?? ""\<close> and \<open>name?.split(" ").slice(1).join(" ") ?? ""\<close>: the
  text before the first space, and the text after it.\<close>

definition first_name :: "string option \<Rightarrow> string" where
  "first_name x = (case x of None \<Rightarrow> [] | Some n \<Rightarrow> takeWhile (\<lambda>c. c \<noteq> CHR '' '') n)"

definition last_name :: "string option \<Rightarrow> string" where
  "last_name x = (case x of None \<Rightarrow> [] | Some n \<Rightarrow> drop 1 (dropWhile (\<lambda>c. c \<noteq> CHR '' '') n))"

definition bearer :: "string \<Rightarrow> string \<Rightarrow> (string \<times> string) list" where
  "bearer key content_type =
     [(''Authorization'', ''Bearer '' @ key), (''Content-Type'', content_type)]"

subsection \<open>Stripe\<close>

definition stripe_checkout_body :: "CreateCheckoutLinkParams \<Rightarrow> (string \<times> string) list" where
  "stripe_checkout_body params =
     [(''mode'', if ptype params = Subscription then ''subscription'' else ''payment''),
      (''success_url'', or_else (redirectUrl params) ''''),
      (''line_items[0][price]'', productId params),
      (''line_items[0][quantity]'', String_of_int (or_else (seats params) 1))]
     @ (if \<not> absent (customerId_opt params) then
          [(''customer'', or_else (customerId_opt params) '''')]
        else if \<not> absent (email params) then
          [(''customer_email'', or_else (email params) '''')]
        else [])
     @ (if \<not> absent (organizationId params) then
          [(''metadata[organization_id]'', or_else (organizationId params) '''')]
        else [])
     @ (if \<not> absent (userId params) then
          [(''metadata[user_id]'', or_else (userId params) '''')]
        else [])
     @ (case trialPeriodDays params of
          None \<Rightarrow> []
        | Some d \<Rightarrow>
            if ptype params = Subscription \<and> d \<noteq> 0 then
              [(''subscription_data[trial_period_days]'', String_of_int d)]
            else [])"

definition stripe_checkout_call :: "string \<Rightarrow> CreateCheckoutLinkParams \<Rightarrow> fetch_call" where
  "stripe_checkout_call secretKey params =
     \<lparr>url = ''https://api.stripe.com/v1/checkout/sessions'',
      http_method = ''POST'',
      http_headers = bearer secretKey ''application/x-www-form-urlencoded'',
      payload = FormBody (stripe_checkout_body params)\<rparr>"

definition stripe_createCheckoutLink ::
  "fetch \<Rightarrow> env \<Rightarrow> CreateCheckoutLinkParams \<Rightarrow> (error + js) \<times> fetch_call list" where
  "stripe_createCheckoutLink F env params =
     (case getStripeSecretKey env of
        Inl e \<Rightarrow> (Inl e, [])
      | Inr secretKey \<Rightarrow>
          (let call = stripe_checkout_call secretKey params in
           case F call of
             Inl e \<Rightarrow> (Inl e, [call])
           | Inr response \<Rightarrow>
               (case json_or_throw ''Stripe API error: '' response of
                  Inl e \<Rightarrow> (Inl e, [call])
                | Inr session \<Rightarrow> (get_prop session ''url'', [call]))))"

subsection \<open>LemonSqueezy\<close>

text \<open>\<open>parseInt\<close> is the platform's; it is a parameter \<open>P\<close>, from the text and the radix to
  a number.\<close>

type_synonym parse_int = "string \<Rightarrow> int \<Rightarrow> number"

definition lemonsqueezy_checkout_body ::
  "parse_int \<Rightarrow> string \<Rightarrow> CreateCheckoutLinkParams \<Rightarrow> js" where
  "lemonsqueezy_checkout_body P storeId params =
     JObj [(''data'', JObj
       [(''type'', JStr ''checkouts''),
        (''attributes'', JObj
          [(''product_options'', JObj
             [(''redirect_url'', js_opt (redirectUrl params)),
              (''enabled_variants'', JArr [JNum (P (productId params) 10)])]),
           (''checkout_data'', JObj
             [(''email'', js_opt (email params)),
              (''name'', js_opt (name params)),
              (''variant_quantities'', JArr [JObj
                 [(''variant_id'', JNum (P (productId params) 10)),
                  (''quantity'', js_int (or_else (seats params) 1))]]),
              (''custom'', JObj (metadata_ids params))])]),
        (''relationships'', JObj
          [(''store'', JObj [(''data'', JObj [(''type'', JStr ''stores''), (''id'', JStr storeId)])]),
           (''variant'', JObj [(''data'', JObj [(''type'', JStr ''variants''),
                                                (''id'', JStr (productId params))])])])])]"

definition lemonsqueezy_checkout_call ::
  "parse_int \<Rightarrow> string \<Rightarrow> string \<Rightarrow> CreateCheckoutLinkParams \<Rightarrow> fetch_call" where
  "lemonsqueezy_checkout_call P apiKey storeId params =
     \<lparr>url = ''https://api.lemonsqueezy.com/v1/checkouts'',
      http_method = ''POST'',
      http_headers = bearer apiKey ''application/vnd.api+json''
                     @ [(''Accept'', ''application/vnd.api+json'')],
      payload = JsonBody (lemonsqueezy_checkout_body P storeId params)\<rparr>"

definition lemonsqueezy_createCheckoutLink ::
  "parse_int \<Rightarrow> fetch \<Rightarrow> env \<Rightarrow> CreateCheckoutLinkParams \<Rightarrow> (error + js) \<times> fetch_call list" where
  "lemonsqueezy_createCheckoutLink P F env params =
     (case getLemonSqueezyApiKey env of
        Inl e \<Rightarrow> (Inl e, [])
      | Inr apiKey \<Rightarrow>
          (case getLemonSqueezyStoreId env of
             Inl e \<Rightarrow> (Inl e, [])
           | Inr storeId \<Rightarrow>
               (let call = lemonsqueezy_checkout_call P apiKey storeId params in
                case F call of
                  Inl e \<Rightarrow> (Inl e, [call])
                | Inr response \<Rightarrow>
                    (case json_or_throw ''LemonSqueezy API error: '' response of
                       Inl e \<Rightarrow> (Inl e, [call])
                     | Inr result \<Rightarrow>
                         (case get_prop result ''data'' of
                            Inl e \<Rightarrow> (Inl e, [call])
                          | Inr d \<Rightarrow>
                              (case get_prop d ''attributes'' of
                                 Inl e \<Rightarrow> (Inl e, [call])
                               | Inr a \<Rightarrow> (get_prop a ''url'', [call])))))))"

subsection \<open>Polar\<close>

definition polar_checkout_body :: "CreateCheckoutLinkParams \<Rightarrow> js" where
  "polar_checkout_body params =
     JObj [(''products'', JArr [JStr (productId params)]),
           (''success_url'', JStr (or_else (redirectUrl params) '''')),
           (''metadata'', JObj (metadata_ids params)),
           (''customer_id'', or_undefined (customerId_opt params))]"

definition polar_checkout_call :: "string \<Rightarrow> CreateCheckoutLinkParams \<Rightarrow> fetch_call" where
  "polar_checkout_call accessToken params =
     \<lparr>url = ''https://api.polar.sh/v1/checkouts'',
      http_method = ''POST'',
      http_headers = bearer accessToken ''application/json'',
      payload = JsonBody (polar_checkout_body params)\<rparr>"

definition polar_createCheckoutLink ::
  "fetch \<Rightarrow> env \<Rightarrow> CreateCheckoutLinkParams \<Rightarrow> (error + js) \<times> fetch_call list" where
  "polar_createCheckoutLink F env params =
     (case getPolarAccessToken env of
        Inl e \<Rightarrow> (Inl e, [])
      | Inr accessToken \<Rightarrow>
          (let call = polar_checkout_call accessToken params in
           case F call of
             Inl e \<Rightarrow> (Inl e, [call])
           | Inr response \<Rightarrow>
               (case json_or_throw ''Polar API error: '' response of
                  Inl e \<Rightarrow> (Inl e, [call])
                | Inr result \<Rightarrow> (get_prop result ''url'', [call]))))"

subsection \<open>Creem\<close>

definition creem_checkout_body :: "CreateCheckoutLinkParams \<Rightarrow> js" where
  "creem_checkout_body params =
     JObj [(''product_id'', JStr (productId params)),
           (''units'', js_int (or_else (seats params) 1)),
           (''success_url'', js_opt (redirectUrl params)),
           (''metadata'', JObj [(''organization_id'', or_null (organizationId params)),
                               (''user_id'', or_null (userId params))]),
           (''customer'', JObj [(''email'', js_opt (email params))])]"

text \<open>\<open>creemFetch(path, init)\<close>: the key is read before the call is made.\<close>

definition creem_call :: "string \<Rightarrow> string \<Rightarrow> string \<Rightarrow> string \<Rightarrow> payload \<Rightarrow> fetch_call" where
  "creem_call baseUrl apiKey path init_method init_body =
     \<lparr>url = baseUrl @ path,
      http_method = init_method,
      http_headers = [(''x-api-key'', apiKey), (''Content-Type'', ''application/json'')],
      payload = init_body\<rparr>"

definition creemFetch ::
  "fetch \<Rightarrow> env \<Rightarrow> string \<Rightarrow> string \<Rightarrow> payload
     \<Rightarrow> (error + http_response) \<times> fetch_call list" where
  "creemFetch F env path init_method init_body =
     (case getCreemApiKey env of
        Inl e \<Rightarrow> (Inl e, [])
      | Inr apiKey \<Rightarrow>
          (let call = creem_call (getCreemApiUrl env) apiKey path init_method init_body
           in (F call, [call])))"

definition creem_createCheckoutLink ::
  "fetch \<Rightarrow> env \<Rightarrow> CreateCheckoutLinkParams \<Rightarrow> (error + js) \<times> fetch_call list" where
  "creem_createCheckoutLink F env params =
     (case creemFetch F env ''/checkouts'' ''POST'' (JsonBody (creem_checkout_body params)) of
        (Inl e, calls) \<Rightarrow> (Inl e, calls)
      | (Inr response, calls) \<Rightarrow>
          (case json_or_throw ''Creem API error: '' response of
             Inl e \<Rightarrow> (Inl e, calls)
           | Inr result \<Rightarrow> (get_prop result ''checkout_url'', calls)))"

subsection \<open>DodoPayments\<close>

definition dodopayments_checkout_body :: "CreateCheckoutLinkParams \<Rightarrow> js" where
  "dodopayments_checkout_body params =
     JObj [(''product_cart'', JArr [JObj
              [(''product_id'', JStr (productId params)),
               (''quantity'', js_int (or_else (seats params) 1))]]),
           (''return_url'', JStr (or_else (redirectUrl params) '''')),
           (''customer'',
              if \<not> absent (customerId_opt params) then
                JObj [(''customer_id'', js_opt (customerId_opt params))]
              else JObj [(''email'', JStr (or_else (email params) '''')),
                         (''name'', JStr (or_else (name params) ''''))]),
           (''metadata'', JObj (metadata_ids params)),
           (''subscription_data'',
              case trialPeriodDays params of
                None \<Rightarrow> JUndefined
              | Some d \<Rightarrow>
                  if d \<noteq> 0 then JObj [(''trial_period_days'', js_int d)] else JUndefined)]"

definition dodopayments_checkout_call ::
  "string \<Rightarrow> string \<Rightarrow> CreateCheckoutLinkParams \<Rightarrow> fetch_call" where
  "dodopayments_checkout_call baseUrl apiKey params =
     \<lparr>url = baseUrl @ ''/checkout-sessions'',
      http_method = ''POST'',
      http_headers = bearer apiKey ''application/json'',
      payload = JsonBody (dodopayments_checkout_body params)\<rparr>"

definition dodopayments_createCheckoutLink ::
  "fetch \<Rightarrow> env \<Rightarrow> CreateCheckoutLinkParams \<Rightarrow> (error + js) \<times> fetch_call list" where
  "dodopayments_createCheckoutLink F env params =
     (case getDodoPaymentsApiKey env of
        Inl e \<Rightarrow> (Inl e, [])
      | Inr apiKey \<Rightarrow>
          (let call = dodopayments_checkout_call (getDodoPaymentsApiUrl env) apiKey params in
           case F call of
             Inl e \<Rightarrow> (Inl e, [call])
           | Inr response \<Rightarrow>
               (case json_or_throw ''DodoPayments API error: '' response of
                  Inl e \<Rightarrow> (Inl e, [call])
                | Inr result \<Rightarrow> (get_prop result ''checkout_url'', [call]))))"

subsection \<open>Console and Custom\<close>

definition console_createCheckoutLink ::
  "CreateCheckoutLinkParams \<Rightarrow> (error + js) \<times> fetch_call list" where
  "console_createCheckoutLink params =
     (Inr (JStr ''https://example.com/checkout/mock-session-id''), [])"

definition custom_createCheckoutLink ::
  "CreateCheckoutLinkParams \<Rightarrow> (error + js) \<times> fetch_call list" where
  "custom_createCheckoutLink params =
     (Inl (Error ''Custom createCheckoutLink not implemented''), [])"

subsection \<open>Tap\<close>

text \<open>\<open>Date.now()\<close> is a parameter \<open>now\<close> of Tap's \<open>createCheckoutLink\<close>.\<close>

definition tap_checkout_metadata :: "CreateCheckoutLinkParams \<Rightarrow> (string \<times> js) list" where
  "tap_checkout_metadata params =
     metadata_ids params
     @ [(''product_id'', JStr (productId params)),
        (''quantity'', JStr (String_of_int (or_else (seats params) 1))),
        (''type'', JStr (type_string (ptype params)))]"

definition tap_checkout_body :: "int \<Rightarrow> CreateCheckoutLinkParams \<Rightarrow> js" where
  "tap_checkout_body now params =
     JObj [(''amount'', js_int 0),
           (''currency'', JStr ''USD''),
           (''save_card'', JBool (ptype params = Subscription)),
           (''customer'', JObj [(''email'', js_opt (email params)),
                               (''first_name'', JStr (first_name (name params))),
                               (''last_name'', JStr (last_name (name params)))]),
           (''source'', JObj [(''id'', JStr ''src_all'')]),
           (''redirect'', JObj [(''url'', JStr (or_else (redirectUrl params) ''''))]),
           (''post'', JObj [(''url'', JStr (or_else (redirectUrl params) ''''))]),
           (''metadata'', JObj (tap_checkout_metadata params)),
           (''reference'', JObj
              [(''transaction'', JStr (productId params)),
               (''order'', JStr (type_string (ptype params) @ ''_'' @ String_of_int now))])]"

definition tap_call :: "string \<Rightarrow> string \<Rightarrow> js \<Rightarrow> fetch_call" where
  "tap_call path secretKey v =
     \<lparr>url = ''https://api.tap.company/v2'' @ path,
      http_method = ''POST'',
      http_headers = bearer secretKey ''application/json'',
      payload = JsonBody v\<rparr>"

definition tap_createCheckoutLink ::
  "int \<Rightarrow> fetch \<Rightarrow> env \<Rightarrow> CreateCheckoutLinkParams \<Rightarrow> (error + js) \<times> fetch_call list" where
  "tap_createCheckoutLink now F env params =
     (case getTapSecretKey env of
        Inl e \<Rightarrow> (Inl e, [])
      | Inr secretKey \<Rightarrow>
          (let call = tap_call ''/charges'' secretKey (tap_checkout_body now params) in
           case F call of
             Inl e \<Rightarrow> (Inl e, [call])
           | Inr response \<Rightarrow>
               (case json_or_throw ''Tap API error: '' response of
                  Inl e \<Rightarrow> (Inl e, [call])
                | Inr result \<Rightarrow>
                    (case get_prop result ''transaction'' of
                       Inl e \<Rightarrow> (Inl e, [call])
                     | Inr transaction \<Rightarrow>
                         (let u = get_prop_opt transaction ''url'' in
                          (Inr (if u = JUndefined \<or> u = JNull then JNull else u), [call]))))))"

section \<open>Tap: charging a saved card\<close>

record ChargeCardParams =
  charge_customerId :: string
  charge_cardId :: string
  charge_paymentAgreementId :: string
  amount :: number
  currency :: string
  description :: "string option"
  metadata :: "(string \<times> string) list option"





section \<open>Reading a request body\<close>

text \<open>The JSON value or the form fields that a call carries, and the value found in a
  JSON value along a path of member names and array indices.\<close>

definition json_of :: "fetch_call \<Rightarrow> js" where
  "json_of c = (case payload c of JsonBody v \<Rightarrow> v | _ \<Rightarrow> JUndefined)"

definition form_of :: "fetch_call \<Rightarrow> (string \<times> string) list" where
  "form_of c = (case payload c of FormBody fs \<Rightarrow> fs | _ \<Rightarrow> [])"

datatype path_step = Key string | Index nat

fun at_path :: "js \<Rightarrow> path_step list \<Rightarrow> js" where
  "at_path v [] = v"
| "at_path v (Key k # p) = at_path (get_prop_opt v k) p"
| "at_path (JArr vs) (Index i # p) =
     (if i < length vs then at_path (vs ! i) p else JUndefined)"
| "at_path v (Index i # p) = JUndefined"

section \<open>Signed requests\<close>

text \<open>
  The two canonicalisations of the specification (section 4.1), as predicates on a request.
  Both are over the text of the body, \<open>text_of\<close>, which is what the handlers hash: the
  UTF-8 decoding of the bytes received. Direct: the named header is the hexadecimal
  HMAC-SHA256 of the body's text under the secret. Composite: the header
  \<open>webhook-signature\<close> is the hexadecimal HMAC-SHA256 of the id header, the timestamp
  header and the body's text, joined by dots.
\<close>

definition direct_signed :: "hmac \<Rightarrow> string \<Rightarrow> string \<Rightarrow> request \<Rightarrow> bool" where
  "direct_signed H secret header req =
     (headers req header = Some (digest_hex (H secret (text_of req))))"

definition composite_signed :: "hmac \<Rightarrow> string \<Rightarrow> request \<Rightarrow> bool" where
  "composite_signed H secret req =
     (case (headers req ''webhook-id'', headers req ''webhook-timestamp'') of
        (Some i, Some t) \<Rightarrow>
          headers req ''webhook-signature''
            = Some (digest_hex (H secret (i @ ''.'' @ t @ ''.'' @ text_of req)))
      | _ \<Rightarrow> False)"

text \<open>The body is JSON text for a value other than \<open>null\<close>: the handlers read a member
  of the parsed value, which throws on \<open>null\<close>.\<close>

definition parses_to_event :: "string \<Rightarrow> bool" where
  "parses_to_event s =
     (case JSON_parse s of Inl e \<Rightarrow> False | Inr v \<Rightarrow> v \<noteq> JNull)"

text \<open>The body is JSON text for a value with a member \<open>meta\<close> that is not \<open>null\<close>:
  LemonSqueezy's handler reads \<open>payload.meta.event_name\<close>.\<close>

definition parses_to_meta_event :: "string \<Rightarrow> bool" where
  "parses_to_meta_event s =
     (case JSON_parse s of
        Inl e \<Rightarrow> False
      | Inr v \<Rightarrow> get_prop_opt v ''meta'' \<noteq> JNull \<and> get_prop_opt v ''meta'' \<noteq> JUndefined)"

section \<open>The end-to-end scenarios\<close>

text \<open>The request bodies of the two end-to-end scenarios of the specification.\<close>

definition lemonsqueezy_scenario_body :: string where
  \<open>lemonsqueezy_scenario_body = ''{"meta":{"event_name":"subscription_created"},"data":{}}''\<close>

definition dodopayments_scenario_body :: string where
  \<open>dodopayments_scenario_body = ''{"type":"subscription.created","data":{}}''\<close>

text \<open>A configuration with every webhook secret set to \<open>shh\<close>.\<close>

definition scenario_env :: env where
  "scenario_env =
     [''STRIPE_WEBHOOK_SECRET'' \<mapsto> ''shh'', ''LEMONSQUEEZY_WEBHOOK_SECRET'' \<mapsto> ''shh'',
      ''POLAR_WEBHOOK_SECRET'' \<mapsto> ''shh'', ''CREEM_WEBHOOK_SECRET'' \<mapsto> ''shh'',
      ''DODO_PAYMENTS_WEBHOOK_SECRET'' \<mapsto> ''shh'', ''TAP_WEBHOOK_SECRET'' \<mapsto> ''shh'']"

text \<open>
  A request that carries the LemonSqueezy scenario's body and a correct signature for each
  provider, and the same request with the signatures replaced by \<open>deadbeef\<close>. The header
  \<open>hashstring\<close> is what the sample verifier below looks at.
\<close>

definition signed_request :: "hmac \<Rightarrow> request" where
  "signed_request H =
     \<lparr>req_method = ''POST'',
      headers =
        [''stripe-signature'' \<mapsto> ''t=1700000000,v1=00'',
         ''x-signature'' \<mapsto> digest_hex (H ''shh'' lemonsqueezy_scenario_body),
         ''creem-signature'' \<mapsto> digest_hex (H ''shh'' lemonsqueezy_scenario_body),
         ''webhook-id'' \<mapsto> ''wh_1'',
         ''webhook-timestamp'' \<mapsto> ''1700000000'',
         ''webhook-signature'' \<mapsto>
           digest_hex (H ''shh'' (''wh_1.1700000000.'' @ lemonsqueezy_scenario_body)),
         ''hashstring'' \<mapsto> ''ok''],
      body = Some lemonsqueezy_scenario_body\<rparr>"

definition forged_request :: request where
  "forged_request =
     \<lparr>req_method = ''POST'',
      headers =
        [''stripe-signature'' \<mapsto> ''deadbeef'',
         ''x-signature'' \<mapsto> ''deadbeef'',
         ''creem-signature'' \<mapsto> ''deadbeef'',
         ''webhook-id'' \<mapsto> ''wh_1'',
         ''webhook-timestamp'' \<mapsto> ''1700000000'',
         ''webhook-signature'' \<mapsto> ''deadbeef'',
         ''hashstring'' \<mapsto> ''deadbeef''],
      body = Some lemonsqueezy_scenario_body\<rparr>"

text \<open>A sample verifier for Tap: it accepts a request whose header \<open>hashstring\<close> is
  \<open>ok\<close> and hands the parsed payload back.\<close>

definition sample_verifier :: verifier where
  "sample_verifier secret parsed hs =
     Inr \<lparr>isValid = (hs ''hashstring'' = Some ''ok''),
          error_text = ''hashstring mismatch'',
          data = parsed\<rparr>"

text \<open>Two Stripe events that differ in one byte, the amount.\<close>

definition stripe_event_body :: string where
  \<open>stripe_event_body = ''{"type":"checkout.session.completed","amount":1}''\<close>

definition stripe_tampered_body :: string where
  \<open>stripe_tampered_body = ''{"type":"checkout.session.completed","amount":9}''\<close>

text \<open>A checkout request without seats, and a saved card to charge.\<close>

definition sample_checkout_params :: CreateCheckoutLinkParams where
  "sample_checkout_params =
     \<lparr>ptype = Subscription, productId = ''price_1'', email = Some ''ada@example.com'',
      name = Some ''Ada Lovelace'', redirectUrl = Some ''https://example.com/success'',
      customerId_opt = None, organizationId = Some ''org_1'', userId = None,
      trialPeriodDays = None, seats = None\<rparr>"



text \<open>A configuration with every provider key set.\<close>

definition checkout_env :: env where
  "checkout_env =
     [''STRIPE_SECRET_KEY'' \<mapsto> ''sk_test'', ''LEMONSQUEEZY_API_KEY'' \<mapsto> ''sk_test'',
      ''LEMONSQUEEZY_STORE_ID'' \<mapsto> ''42'', ''POLAR_ACCESS_TOKEN'' \<mapsto> ''sk_test'',
      ''CREEM_API_KEY'' \<mapsto> ''sk_test'', ''DODO_PAYMENTS_API_KEY'' \<mapsto> ''sk_test'',
      ''TAP_SECRET_KEY'' \<mapsto> ''sk_test'']"




section \<open>Verified properties\<close>

subsection \<open>Auxiliary facts: values and JSON\<close>

lemma get_prop_truthy:
  "truthy (get_prop_opt v k) \<Longrightarrow> get_prop v k = Inr (get_prop_opt v k)"
  by (cases v) simp_all

lemma get_prop_JObj: "get_prop (JObj kvs) k = Inr (get_prop_opt (JObj kvs) k)"
  by simp

lemma get_prop_not_nullish:
  "v \<noteq> JNull \<Longrightarrow> v \<noteq> JUndefined \<Longrightarrow> get_prop v k = Inr (get_prop_opt v k)"
  by (cases v) simp_all

lemma get_prop_opt_defined_not_nullish:
  "get_prop_opt v k \<noteq> JUndefined \<Longrightarrow> v \<noteq> JNull \<and> v \<noteq> JUndefined"
  by (cases v) simp_all

lemma deliver_Finished:
  "deliver v st = Some (Finished w, st') \<Longrightarrow> w = v"
  by (cases "(v, st)" rule: deliver.cases) auto

lemma scalar_defined: "scalar t = Some v \<Longrightarrow> v \<noteq> JUndefined"
  by (cases t) auto

lemma step_Finished:
  assumes "step ex st t = Some (Finished w, st')"
  shows "w \<noteq> JUndefined"
proof (cases ex)
  case ExpValue
  with assms show ?thesis
    by (auto simp: start_value_def split: if_splits option.splits
          dest: deliver_Finished scalar_defined)
next
  case ExpValueOrEnd
  with assms show ?thesis
    by (auto simp: start_value_def close_array_def
          split: if_splits option.splits list.splits frame.splits
          dest: deliver_Finished scalar_defined)
next
  case ExpKeyOrEnd
  with assms show ?thesis
    by (auto simp: close_object_def read_key_def
          split: if_splits option.splits list.splits frame.splits token.splits
          dest: deliver_Finished)
next
  case ExpKey
  with assms show ?thesis
    by (auto simp: read_key_def split: list.splits frame.splits token.splits)
next
  case ExpColon
  with assms show ?thesis by (auto split: if_splits)
next
  case ExpCommaOrEnd
  with assms show ?thesis
    by (auto simp: close_array_def close_object_def
          split: if_splits list.splits frame.splits dest: deliver_Finished)
next
  case (Finished x)
  with assms show ?thesis by simp
qed

lemma parse_tokens_Nil: "parse_tokens ex st [] = Some v \<Longrightarrow> ex = Finished v"
  by (cases "(ex, st, [] :: token list)" rule: parse_tokens.cases) auto

lemma parse_tokens_defined:
  "parse_tokens ex st ts = Some v \<Longrightarrow> (\<And>w. ex = Finished w \<Longrightarrow> w \<noteq> JUndefined)
     \<Longrightarrow> v \<noteq> JUndefined"
proof (induction ts arbitrary: ex st)
  case Nil
  then show ?case using parse_tokens_Nil by blast
next
  case (Cons t ts)
  from Cons.prems(1) obtain ex' st' where s: "step ex st t = Some (ex', st')"
    and p: "parse_tokens ex' st' ts = Some v"
    by (auto split: option.splits)
  have "w \<noteq> JUndefined" if "ex' = Finished w" for w
    using s that step_Finished by blast
  with Cons.IH[OF p] show ?case by blast
qed

lemma JSON_parse_defined: "JSON_parse s \<noteq> Inr JUndefined"
proof
  assume "JSON_parse s = Inr JUndefined"
  then obtain ts where "parse_tokens ExpValue [] ts = Some JUndefined"
    by (auto simp: JSON_parse_def split: option.splits)
  from parse_tokens_defined[OF this] show False by simp
qed

subsection \<open>Auxiliary facts: the text of a body\<close>

lemma decoder_run_ascii: "is_ascii s \<Longrightarrow> decoder_run initial_state s = s"
proof (induction s)
  case Nil
  then show ?case by (simp add: initial_state_def)
next
  case (Cons c s)
  then have c: "(of_char c :: nat) \<le> 0x7F" and s: "is_ascii s"
    by (simp_all add: is_ascii_def)
  have "decoder_step initial_state c = ([c], initial_state)"
    using c by (simp add: decoder_step_def decoder_start_def initial_state_def)
  with Cons.IH[OF s] show ?case by simp
qed

lemma utf8_decode_ascii: "is_ascii s \<Longrightarrow> utf8_decode s = s"
proof -
  assume a: "is_ascii s"
  have "take 3 s \<noteq> byte_order_mark"
  proof
    assume t: "take 3 s = byte_order_mark"
    then obtain c s' where "s = c # s'" "c = CHR 0xEF"
      by (cases s) (auto simp: byte_order_mark_def)
    with a show False by (simp add: is_ascii_def)
  qed
  with a show ?thesis by (simp add: utf8_decode_def decoder_run_ascii)
qed

lemma text_of_ascii: "body req = Some b \<Longrightarrow> is_ascii b \<Longrightarrow> text_of req = b"
  by (simp add: text_of_def utf8_decode_ascii)

text \<open>The decoding is not injective: a byte order mark in front of ASCII text is dropped,
  and a malformed byte becomes U+FFFD.\<close>

lemma utf8_decode_byte_order_mark:
  "is_ascii s \<Longrightarrow> utf8_decode (byte_order_mark @ s) = s"
  by (simp add: utf8_decode_def byte_order_mark_def decoder_run_ascii)

lemma utf8_decode_malformed: "utf8_decode [CHR 0xFF] = replacement"
  by (simp add: utf8_decode_def byte_order_mark_def decoder_step_def decoder_start_def
        initial_state_def)

lemma scenario_bodies_ascii:
  "is_ascii lemonsqueezy_scenario_body" "is_ascii dodopayments_scenario_body"
  "is_ascii stripe_event_body" "is_ascii stripe_tampered_body" "is_ascii ''{}''"
  by (simp_all add: is_ascii_def lemonsqueezy_scenario_body_def dodopayments_scenario_body_def
        stripe_event_body_def stripe_tampered_body_def)

subsection \<open>Auxiliary facts: digests\<close>

lemma length_digest_hex [simp]: "length (digest_hex w) = 64"
  by (simp add: digest_hex_def)

lemma digest_hex_neq:
  assumes "length s \<noteq> 64"
  shows "digest_hex w \<noteq> s" and "s \<noteq> digest_hex w"
  using assms length_digest_hex[of w] by (auto simp del: length_digest_hex)

lemma hex_char_inj:
  assumes "m < 16" "n < 16" "hex_char m = hex_char n"
  shows "m = n"
proof -
  have d: "distinct ''0123456789abcdef''" by simp
  have l: "length ''0123456789abcdef'' = 16" by simp
  from assms show ?thesis
    unfolding hex_char_def using d l nth_eq_iff_index_eq by metis
qed

lemma nibble_eq:
  assumes "digest_hex a = digest_hex b" "j < 64"
  shows "take_bit 4 (drop_bit (4 * j) a) = take_bit 4 (drop_bit (4 * j) b)"
proof -
  let ?f = "\<lambda>w i. hex_char (unat (take_bit 4 (drop_bit (4 * (63 - i)) (w :: 256 word))))"
  have "map (?f a) [0..<64] ! (63 - j) = map (?f b) [0..<64] ! (63 - j)"
    using assms(1) by (simp only: digest_hex_def)
  moreover have "[0..<64] ! (63 - j) = 63 - j"
    using nth_upt[of 0 "63 - j" 64] by simp
  ultimately have e: "?f a (63 - j) = ?f b (63 - j)"
    by (simp del: upt_rec_numeral)
  have j: "63 - (63 - j) = j" using assms(2) by simp
  have b: "unat (take_bit 4 (drop_bit (4 * j) w)) < 16" for w :: "256 word"
  proof -
    have "unat (take_bit 4 (drop_bit (4 * j) w)) = take_bit 4 (unat (drop_bit (4 * j) w))"
      by (simp add: unsigned_take_bit_eq)
    moreover have "take_bit 4 (unat (drop_bit (4 * j) w)) < 2 ^ 4"
      by (rule take_bit_nat_less_exp)
    ultimately show ?thesis by simp
  qed
  from e have "hex_char (unat (take_bit 4 (drop_bit (4 * j) a)))
             = hex_char (unat (take_bit 4 (drop_bit (4 * j) b)))"
    by (simp only: j)
  from hex_char_inj[OF b b this] show ?thesis by (rule word_unat_eq_iff[THEN iffD2])
qed

lemma digest_hex_inj: "digest_hex a = digest_hex b \<Longrightarrow> a = b"
proof (rule bit_eqI)
  fix n
  assume eq: "digest_hex a = digest_hex b" and "possible_bit TYPE(256 word) n"
  then have n: "n < 256" by (simp add: possible_bit_def)
  then have j: "n div 4 < 64" by simp
  have r: "n mod 4 < 4" by simp
  have "bit (take_bit 4 (drop_bit (4 * (n div 4)) w)) (n mod 4) = bit w n" for w :: "256 word"
    by (simp add: bit_take_bit_iff bit_drop_bit_eq)
  with nibble_eq[OF eq j] show "bit a n = bit b n" by metis
qed

subsection \<open>Auxiliary facts: configuration, responses and the sample inputs\<close>

lemma status_Response [simp]: "status (Response m s) = s"
  by (simp add: Response_def)

lemma require_env_absent:
  "absent (env var) \<Longrightarrow> require_env env var = Inl (Error (''Missing env variable '' @ var))"
  by (auto simp: require_env_def absent_def split: option.splits)

lemma require_env_present:
  "env var = Some v \<Longrightarrow> v \<noteq> [] \<Longrightarrow> require_env env var = Inr v"
  by (simp add: require_env_def)


lemma String_of_int_examples:
  "String_of_int 1 = ''1''" "String_of_int 0 = ''0''" "String_of_int 25 = ''25''"
  "String_of_int (- 3) = ''-3''" "String_of_int 1700000000000 = ''1700000000000''"
  by (simp_all add: String_of_int_def digits_of_nat.simps digit_char_def)

lemma parse_lemonsqueezy_scenario_body:
  "JSON_parse lemonsqueezy_scenario_body =
     Inr (JObj [(''meta'', JObj [(''event_name'', JStr ''subscription_created'')]),
                (''data'', JObj [])])"
  unfolding lemonsqueezy_scenario_body_def by code_simp

lemma parse_dodopayments_scenario_body:
  "JSON_parse dodopayments_scenario_body =
     Inr (JObj [(''type'', JStr ''subscription.created''), (''data'', JObj [])])"
  unfolding dodopayments_scenario_body_def by code_simp

lemma parse_stripe_bodies:
  "JSON_parse stripe_event_body
     = Inr (JObj [(''type'', JStr ''checkout.session.completed''), (''amount'', JNum (Num 1 0))])"
  "JSON_parse stripe_tampered_body
     = Inr (JObj [(''type'', JStr ''checkout.session.completed''), (''amount'', JNum (Num 9 0))])"
  unfolding stripe_event_body_def stripe_tampered_body_def by code_simp+




lemma lemonsqueezy_scenario_body_event:
  "parses_to_event lemonsqueezy_scenario_body"
  "parses_to_meta_event lemonsqueezy_scenario_body"
  by (simp_all add: parses_to_event_def parses_to_meta_event_def
        parse_lemonsqueezy_scenario_body)

lemma scenario_env_lookup:
  "scenario_env ''STRIPE_WEBHOOK_SECRET'' = Some ''shh''"
  "scenario_env ''LEMONSQUEEZY_WEBHOOK_SECRET'' = Some ''shh''"
  "scenario_env ''POLAR_WEBHOOK_SECRET'' = Some ''shh''"
  "scenario_env ''CREEM_WEBHOOK_SECRET'' = Some ''shh''"
  "scenario_env ''DODO_PAYMENTS_WEBHOOK_SECRET'' = Some ''shh''"
  "scenario_env ''TAP_WEBHOOK_SECRET'' = Some ''shh''"
  by (simp_all add: scenario_env_def)

lemma checkout_env_lookup:
  "checkout_env ''STRIPE_SECRET_KEY'' = Some ''sk_test''"
  "checkout_env ''LEMONSQUEEZY_API_KEY'' = Some ''sk_test''"
  "checkout_env ''LEMONSQUEEZY_STORE_ID'' = Some ''42''"
  "checkout_env ''POLAR_ACCESS_TOKEN'' = Some ''sk_test''"
  "checkout_env ''CREEM_API_KEY'' = Some ''sk_test''"
  "checkout_env ''DODO_PAYMENTS_API_KEY'' = Some ''sk_test''"
  "checkout_env ''TAP_SECRET_KEY'' = Some ''sk_test''"
  "checkout_env ''NODE_ENV'' = None"
  by (simp_all add: checkout_env_def)

lemma signed_request_fields:
  "req_method (signed_request H) = ''POST''"
  "body (signed_request H) = Some lemonsqueezy_scenario_body"
  "text_of (signed_request H) = lemonsqueezy_scenario_body"
  "headers (signed_request H) ''stripe-signature'' = Some ''t=1700000000,v1=00''"
  "headers (signed_request H) ''x-signature''
     = Some (digest_hex (H ''shh'' lemonsqueezy_scenario_body))"
  "headers (signed_request H) ''creem-signature''
     = Some (digest_hex (H ''shh'' lemonsqueezy_scenario_body))"
  "headers (signed_request H) ''webhook-id'' = Some ''wh_1''"
  "headers (signed_request H) ''webhook-timestamp'' = Some ''1700000000''"
  "headers (signed_request H) ''webhook-signature''
     = Some (digest_hex (H ''shh'' (''wh_1.1700000000.'' @ lemonsqueezy_scenario_body)))"
  "headers (signed_request H) ''hashstring'' = Some ''ok''"
  by (simp_all add: signed_request_def text_of_ascii scenario_bodies_ascii)

lemma forged_request_fields:
  "req_method forged_request = ''POST''"
  "body forged_request = Some lemonsqueezy_scenario_body"
  "text_of forged_request = lemonsqueezy_scenario_body"
  "headers forged_request ''stripe-signature'' = Some ''deadbeef''"
  "headers forged_request ''x-signature'' = Some ''deadbeef''"
  "headers forged_request ''creem-signature'' = Some ''deadbeef''"
  "headers forged_request ''webhook-id'' = Some ''wh_1''"
  "headers forged_request ''webhook-timestamp'' = Some ''1700000000''"
  "headers forged_request ''webhook-signature'' = Some ''deadbeef''"
  "headers forged_request ''hashstring'' = Some ''deadbeef''"
  by (simp_all add: forged_request_def text_of_ascii scenario_bodies_ascii)

lemma signed_request_signed:
  "direct_signed H ''shh'' ''x-signature'' (signed_request H)"
  "direct_signed H ''shh'' ''creem-signature'' (signed_request H)"
  "composite_signed H ''shh'' (signed_request H)"
  by (simp_all add: direct_signed_def composite_signed_def signed_request_fields)

lemma forged_request_not_signed:
  "\<not> direct_signed H ''shh'' ''x-signature'' forged_request"
  "\<not> direct_signed H ''shh'' ''creem-signature'' forged_request"
  "\<not> composite_signed H ''shh'' forged_request"
  by (simp_all add: direct_signed_def composite_signed_def forged_request_fields
        digest_hex_neq)

subsection \<open>The webhook handlers, one provider at a time\<close>

lemma event_type_read:
  assumes "parses_to_event s"
  shows "\<exists>v. JSON_parse s = Inr v \<and> get_prop v k = Inr (get_prop_opt v k)"
proof -
  from assms obtain v where v: "JSON_parse s = Inr v" "v \<noteq> JNull"
    by (auto simp: parses_to_event_def split: sum.splits)
  from v(1) have "v \<noteq> JUndefined" using JSON_parse_defined[of s] by auto
  with v show ?thesis by (auto simp: get_prop_not_nullish)
qed

lemma lemonsqueezy_rejects:
  assumes "env ''LEMONSQUEEZY_WEBHOOK_SECRET'' = Some s" "s \<noteq> []"
    and "\<not> direct_signed H s ''x-signature'' req"
  shows "status (lemonsqueezy_webhookHandler H env req) = 400"
  using assms
  by (auto simp: lemonsqueezy_webhookHandler_def lemonsqueezy_try_def direct_signed_def
        Buffer_from_def timingSafeEqual_def Let_def split: option.splits sum.splits if_splits)

lemma lemonsqueezy_accepts:
  assumes "env ''LEMONSQUEEZY_WEBHOOK_SECRET'' = Some s" "s \<noteq> []"
    and "direct_signed H s ''x-signature'' req"
    and "parses_to_meta_event (text_of req)"
  shows "status (lemonsqueezy_webhookHandler H env req) = 204"
proof -
  from assms(4) obtain v where v: "JSON_parse (text_of req) = Inr v"
    and m: "get_prop_opt v ''meta'' \<noteq> JNull" "get_prop_opt v ''meta'' \<noteq> JUndefined"
    by (auto simp: parses_to_meta_event_def split: sum.splits)
  from m(2) have "v \<noteq> JNull \<and> v \<noteq> JUndefined" by (rule get_prop_opt_defined_not_nullish)
  then have g1: "get_prop v ''meta'' = Inr (get_prop_opt v ''meta'')"
    by (simp add: get_prop_not_nullish)
  from m have g2: "get_prop (get_prop_opt v ''meta'') ''event_name''
      = Inr (get_prop_opt (get_prop_opt v ''meta'') ''event_name'')"
    by (simp add: get_prop_not_nullish)
  show ?thesis
    using assms(1-3) v g1 g2
    by (simp add: lemonsqueezy_webhookHandler_def lemonsqueezy_try_def direct_signed_def
          Buffer_from_def timingSafeEqual_def)
qed

lemma creem_rejects:
  assumes "env ''CREEM_WEBHOOK_SECRET'' = Some s" "s \<noteq> []" "req_method req = ''POST''"
    and "\<not> direct_signed H s ''creem-signature'' req"
  shows "status (creem_webhookHandler H env req) = 400"
  using assms
  by (auto simp: creem_webhookHandler_def direct_signed_def Let_def split: option.splits)

lemma creem_accepts:
  assumes "env ''CREEM_WEBHOOK_SECRET'' = Some s" "s \<noteq> []" "req_method req = ''POST''"
    and "direct_signed H s ''creem-signature'' req"
    and "parses_to_event (text_of req)"
  shows "status (creem_webhookHandler H env req) = 204"
proof -
  from event_type_read[OF assms(5), of "''eventType''"] obtain v where
    "JSON_parse (text_of req) = Inr v"
    "get_prop v ''eventType'' = Inr (get_prop_opt v ''eventType'')" by blast
  moreover have "digest_hex (H s (text_of req)) \<noteq> []"
    by (rule digest_hex_neq) simp
  ultimately show ?thesis
    using assms(1-4)
    by (auto simp: creem_webhookHandler_def creem_try_def direct_signed_def Let_def)
qed

lemma dodopayments_rejects:
  assumes "env ''DODO_PAYMENTS_WEBHOOK_SECRET'' = Some s" "s \<noteq> []"
    and "\<not> composite_signed H s req"
  shows "status (dodopayments_webhookHandler H env req) = 400
       \<or> status (dodopayments_webhookHandler H env req) = 401"
  using assms
  by (auto simp: dodopayments_webhookHandler_def dodopayments_try_def composite_signed_def
        Let_def split: option.splits)

lemma dodopayments_accepts:
  assumes "env ''DODO_PAYMENTS_WEBHOOK_SECRET'' = Some s" "s \<noteq> []" "body req \<noteq> None"
    and "composite_signed H s req"
    and "headers req ''webhook-id'' \<noteq> Some []" "headers req ''webhook-timestamp'' \<noteq> Some []"
    and "parses_to_event (text_of req)"
  shows "status (dodopayments_webhookHandler H env req) = 204"
proof -
  from event_type_read[OF assms(7), of "''type''"] obtain v where
    v: "JSON_parse (text_of req) = Inr v"
    "get_prop v ''type'' = Inr (get_prop_opt v ''type'')" by blast
  from assms(4) obtain i t where h: "headers req ''webhook-id'' = Some i"
    "headers req ''webhook-timestamp'' = Some t"
    "headers req ''webhook-signature''
       = Some (digest_hex (H s (i @ ''.'' @ t @ ''.'' @ text_of req)))"
    by (auto simp: composite_signed_def split: option.splits)
  have ne: "digest_hex (H s (i @ ''.'' @ t @ ''.'' @ text_of req)) \<noteq> []"
    by (rule digest_hex_neq) simp
  show ?thesis
    using assms(1-3,5,6) v h ne
    by (auto simp: dodopayments_webhookHandler_def dodopayments_try_def Let_def)
qed

lemma tap_rejects:
  assumes "body req \<noteq> None" "env ''TAP_WEBHOOK_SECRET'' = Some s" "s \<noteq> []"
    and "JSON_parse (text_of req) = Inr parsed"
    and "V s parsed (headers req) = Inr result" "\<not> isValid result"
  shows "status (tap_webhookHandler V env req) = 401"
  using assms
  by (auto simp: tap_webhookHandler_def tap_try_def getTapVerifier_def)

lemma tap_accepts:
  assumes "body req \<noteq> None" "env ''TAP_WEBHOOK_SECRET'' = Some s" "s \<noteq> []"
    and "JSON_parse (text_of req) = Inr parsed"
    and "V s parsed (headers req) = Inr result" "isValid result"
    and "tap_dispatch (data result) = Inr ()"
  shows "status (tap_webhookHandler V env req) = 200"
  using assms
  by (auto simp: tap_webhookHandler_def tap_try_def getTapVerifier_def)

lemma stripe_accepts:
  assumes "\<not> absent (env ''STRIPE_WEBHOOK_SECRET'')" "body req \<noteq> None"
    and "\<not> absent (headers req ''stripe-signature'')"
    and "parses_to_event (text_of req)"
  shows "status (stripe_webhookHandler env req) = 200"
proof -
  from event_type_read[OF assms(4), of "''type''"] obtain v where
    "JSON_parse (text_of req) = Inr v"
    "get_prop v ''type'' = Inr (get_prop_opt v ''type'')" by blast
  then show ?thesis
    using assms(1-3) by (auto simp: stripe_webhookHandler_def stripe_try_def)
qed

lemma polar_accepts:
  assumes "\<not> absent (env ''POLAR_WEBHOOK_SECRET'')" "body req \<noteq> None"
    and "parses_to_event (text_of req)"
  shows "status (polar_webhookHandler env req) = 202"
proof -
  from event_type_read[OF assms(3), of "''type''"] obtain v where
    "JSON_parse (text_of req) = Inr v"
    "get_prop v ''type'' = Inr (get_prop_opt v ''type'')" by blast
  then show ?thesis
    using assms(1-2) by (auto simp: polar_webhookHandler_def polar_try_def)
qed

lemma tampered_body_not_signed:
  assumes "headers req h = Some (digest_hex (H s signed_body))"
    and "H s (text_of req) \<noteq> H s signed_body"
  shows "\<not> direct_signed H s h req"
  using assms by (auto simp: direct_signed_def dest: digest_hex_inj)

text \<open>
  What the decoding does to a signed body, for every MAC function. A byte order mark put
  in front of the scenario's body after signing is dropped before the handler hashes, so
  LemonSqueezy answers 204; Polar, which compares nothing, answers 202 to the same body.
  A body that is the single malformed byte \<open>0xFF\<close> is hashed as U+FFFD, so DodoPayments
  answers 401 to a signature computed over the byte itself, unless the two MACs are equal.
\<close>

lemma byte_order_mark_accepted:
  "status (lemonsqueezy_webhookHandler H scenario_env
     \<lparr>req_method = ''POST'',
      headers = [''x-signature'' \<mapsto> digest_hex (H ''shh'' lemonsqueezy_scenario_body)],
      body = Some (byte_order_mark @ lemonsqueezy_scenario_body)\<rparr>) = 204"
  "status (polar_webhookHandler scenario_env
     \<lparr>req_method = ''POST'', headers = Map.empty,
      body = Some (byte_order_mark @ lemonsqueezy_scenario_body)\<rparr>) = 202"
proof -
  let ?r = "\<lparr>req_method = ''POST'',
      headers = [''x-signature'' \<mapsto> digest_hex (H ''shh'' lemonsqueezy_scenario_body)],
      body = Some (byte_order_mark @ lemonsqueezy_scenario_body)\<rparr>"
  let ?p = "\<lparr>req_method = ''POST'', headers = Map.empty,
      body = Some (byte_order_mark @ lemonsqueezy_scenario_body)\<rparr>"
  have t: "text_of ?r = lemonsqueezy_scenario_body" "text_of ?p = lemonsqueezy_scenario_body"
    by (simp_all add: text_of_def utf8_decode_byte_order_mark scenario_bodies_ascii)
  show "status (lemonsqueezy_webhookHandler H scenario_env ?r) = 204"
    by (rule lemonsqueezy_accepts[where s = "''shh''"])
       (simp_all add: scenario_env_lookup direct_signed_def t lemonsqueezy_scenario_body_event)
  show "status (polar_webhookHandler scenario_env ?p) = 202"
    by (rule polar_accepts)
       (simp_all add: scenario_env_lookup absent_def t lemonsqueezy_scenario_body_event)
qed

lemma malformed_body_rejected:
  assumes "H ''shh'' (''wh_1.1700000000.'' @ replacement)
             \<noteq> H ''shh'' (''wh_1.1700000000.'' @ [CHR 0xFF])"
  shows "status (dodopayments_webhookHandler H scenario_env
     \<lparr>req_method = ''POST'',
      headers = [''webhook-id'' \<mapsto> ''wh_1'', ''webhook-timestamp'' \<mapsto> ''1700000000'',
                 ''webhook-signature'' \<mapsto>
                   digest_hex (H ''shh'' (''wh_1.1700000000.'' @ [CHR 0xFF]))],
      body = Some [CHR 0xFF]\<rparr>) = 401"
proof -
  let ?r = "\<lparr>req_method = ''POST'',
      headers = [''webhook-id'' \<mapsto> ''wh_1'', ''webhook-timestamp'' \<mapsto> ''1700000000'',
                 ''webhook-signature'' \<mapsto>
                   digest_hex (H ''shh'' (''wh_1.1700000000.'' @ [CHR 0xFF]))],
      body = Some [CHR 0xFF]\<rparr>"
  have t: "text_of ?r = replacement"
    by (simp add: text_of_def utf8_decode_malformed)
  have d: "digest_hex (H ''shh'' (''wh_1.1700000000.'' @ [CHR 0xFF]))
             \<noteq> digest_hex (H ''shh'' (''wh_1.1700000000.'' @ replacement))"
    using assms digest_hex_inj by metis
  have n: "digest_hex (H ''shh'' (''wh_1.1700000000.'' @ [CHR 0xFF])) \<noteq> []"
    by (rule digest_hex_neq) simp
  show ?thesis
    using t d n
    by (simp add: dodopayments_webhookHandler_def dodopayments_try_def scenario_env_lookup)
qed

text \<open>
  Tap's handler reads its secret inside the \<open>try\<close> block, so the error of
  \<open>getTapVerifier\<close> is caught: without the secret the handler answers 400, never 500.
\<close>

lemma tap_missing_secret:
  "absent (env ''TAP_WEBHOOK_SECRET'') \<Longrightarrow> status (tap_webhookHandler V env req) = 400"
  by (auto simp: absent_def tap_webhookHandler_def tap_try_def getTapVerifier_def
      split: option.splits)

subsection \<open>Tampered and valid webhooks (C1)\<close>

text \<open>
  Claim C1, as amended. The handlers hash the text of the body, that is the UTF-8 decoding
  of the bytes received (a leading byte order mark dropped, every malformed sequence
  replaced by U+FFFD), not the bytes themselves. With the secret configured, the handlers
  that compute an HMAC answer a request whose signature header is not the hexadecimal
  HMAC-SHA256 of that text with 400 (LemonSqueezy; Creem, for a \<open>POST\<close>) or with 400 or 401
  (DodoPayments, which signs id, timestamp and text), and a request whose header is that
  HMAC and whose text is JSON text for a value other than \<open>null\<close> with 204 (LemonSqueezy
  needs a \<open>meta\<close> member that is not \<open>null\<close>; DodoPayments needs a body and non-empty id
  and timestamp headers). By \<open>tampered_body_not_signed\<close>, a body changed after signing is
  rejected when the MAC of its text differs from the signed one; a change that the decoding
  erases is accepted (\<open>byte_order_mark_accepted\<close>), and a signature computed over bytes
  that are not well-formed UTF-8 is rejected unless the two MACs are equal
  (\<open>malformed_body_rejected\<close>). Tap answers 401 when the external verifier reports the
  parsed payload invalid, and 200 when it reports it valid and the event can be
  dispatched. Stripe, Polar and Console compare no signature: with the secret configured
  and a body whose text is JSON text for a value other than \<open>null\<close>, Stripe answers 200 to
  a request with any non-empty \<open>stripe-signature\<close> header and Polar answers 202; Console
  answers 200 to every request.
\<close>

theorem webhook_signature_verification:
  "(env ''LEMONSQUEEZY_WEBHOOK_SECRET'' = Some s \<and> s \<noteq> []
      \<and> \<not> direct_signed H s ''x-signature'' req
      \<longrightarrow> status (lemonsqueezy_webhookHandler H env req) = 400)
   \<and> (env ''LEMONSQUEEZY_WEBHOOK_SECRET'' = Some s \<and> s \<noteq> []
      \<and> direct_signed H s ''x-signature'' req \<and> parses_to_meta_event (text_of req)
      \<longrightarrow> status (lemonsqueezy_webhookHandler H env req) = 204)
   \<and> (env ''CREEM_WEBHOOK_SECRET'' = Some s \<and> s \<noteq> [] \<and> req_method req = ''POST''
      \<and> \<not> direct_signed H s ''creem-signature'' req
      \<longrightarrow> status (creem_webhookHandler H env req) = 400)
   \<and> (env ''CREEM_WEBHOOK_SECRET'' = Some s \<and> s \<noteq> [] \<and> req_method req = ''POST''
      \<and> direct_signed H s ''creem-signature'' req \<and> parses_to_event (text_of req)
      \<longrightarrow> status (creem_webhookHandler H env req) = 204)
   \<and> (env ''DODO_PAYMENTS_WEBHOOK_SECRET'' = Some s \<and> s \<noteq> []
      \<and> \<not> composite_signed H s req
      \<longrightarrow> status (dodopayments_webhookHandler H env req) = 400
          \<or> status (dodopayments_webhookHandler H env req) = 401)
   \<and> (env ''DODO_PAYMENTS_WEBHOOK_SECRET'' = Some s \<and> s \<noteq> [] \<and> body req \<noteq> None
      \<and> composite_signed H s req
      \<and> headers req ''webhook-id'' \<noteq> Some [] \<and> headers req ''webhook-timestamp'' \<noteq> Some []
      \<and> parses_to_event (text_of req)
      \<longrightarrow> status (dodopayments_webhookHandler H env req) = 204)
   \<and> (env ''TAP_WEBHOOK_SECRET'' = Some s \<and> s \<noteq> [] \<and> body req \<noteq> None
      \<and> JSON_parse (text_of req) = Inr parsed
      \<and> V s parsed (headers req) = Inr result \<and> \<not> isValid result
      \<longrightarrow> status (tap_webhookHandler V env req) = 401)
   \<and> (env ''TAP_WEBHOOK_SECRET'' = Some s \<and> s \<noteq> [] \<and> body req \<noteq> None
      \<and> JSON_parse (text_of req) = Inr parsed
      \<and> V s parsed (headers req) = Inr result \<and> isValid result
      \<and> tap_dispatch (data result) = Inr ()
      \<longrightarrow> status (tap_webhookHandler V env req) = 200)
   \<and> (\<not> absent (env ''STRIPE_WEBHOOK_SECRET'') \<and> body req \<noteq> None
      \<and> \<not> absent (headers req ''stripe-signature'') \<and> parses_to_event (text_of req)
      \<longrightarrow> status (stripe_webhookHandler env req) = 200)
   \<and> (\<not> absent (env ''POLAR_WEBHOOK_SECRET'') \<and> body req \<noteq> None
      \<and> parses_to_event (text_of req)
      \<longrightarrow> status (polar_webhookHandler env req) = 202)
   \<and> status (console_webhookHandler req) = 200"
proof (intro conjI impI, goal_cases)
  case 1 then show ?case by (blast intro: lemonsqueezy_rejects)
next
  case 2 then show ?case by (blast intro: lemonsqueezy_accepts)
next
  case 3 then show ?case by (blast intro: creem_rejects)
next
  case 4 then show ?case by (blast intro: creem_accepts)
next
  case 5 then show ?case using dodopayments_rejects[of env s H req] by blast
next
  case 6 then show ?case by (blast intro: dodopayments_accepts)
next
  case 7 then show ?case by (blast intro: tap_rejects)
next
  case 8 then show ?case by (blast intro: tap_accepts)
next
  case 9 then show ?case by (blast intro: stripe_accepts)
next
  case 10 then show ?case by (blast intro: polar_accepts)
next
  case 11 show ?case by (simp add: console_webhookHandler_def)
qed

theorem webhook_signature_verification_witness:
  "\<forall>H. status (lemonsqueezy_webhookHandler H scenario_env forged_request) = 400
     \<and> status (lemonsqueezy_webhookHandler H scenario_env (signed_request H)) = 204
     \<and> status (creem_webhookHandler H scenario_env forged_request) = 400
     \<and> status (creem_webhookHandler H scenario_env (signed_request H)) = 204
     \<and> (status (dodopayments_webhookHandler H scenario_env forged_request) = 400
         \<or> status (dodopayments_webhookHandler H scenario_env forged_request) = 401)
     \<and> status (dodopayments_webhookHandler H scenario_env (signed_request H)) = 204
     \<and> status (tap_webhookHandler sample_verifier scenario_env forged_request) = 401
     \<and> status (tap_webhookHandler sample_verifier scenario_env (signed_request H)) = 200
     \<and> status (stripe_webhookHandler scenario_env (signed_request H)) = 200
     \<and> status (polar_webhookHandler scenario_env (signed_request H)) = 202
     \<and> status (console_webhookHandler (signed_request H)) = 200"
proof
  fix H :: hmac
  let ?parsed = "JObj [(''meta'', JObj [(''event_name'', JStr ''subscription_created'')]),
                       (''data'', JObj [])]"
  let ?ok = "\<lparr>isValid = True, error_text = ''hashstring mismatch'', data = ?parsed\<rparr>"
  let ?bad = "\<lparr>isValid = False, error_text = ''hashstring mismatch'', data = ?parsed\<rparr>"
  have secrets: "\<not> absent (scenario_env ''STRIPE_WEBHOOK_SECRET'')"
    "\<not> absent (scenario_env ''POLAR_WEBHOOK_SECRET'')" "''shh'' \<noteq> []"
    by (simp_all add: scenario_env_lookup absent_def)
  have sig: "\<not> absent (headers (signed_request H) ''stripe-signature'')"
    "headers (signed_request H) ''webhook-id'' \<noteq> Some []"
    "headers (signed_request H) ''webhook-timestamp'' \<noteq> Some []"
    "body (signed_request H) \<noteq> None" "body forged_request \<noteq> None"
    by (simp_all add: signed_request_fields forged_request_fields absent_def)
  have tap: "sample_verifier ''shh'' ?parsed (headers (signed_request H)) = Inr ?ok"
    "sample_verifier ''shh'' ?parsed (headers forged_request) = Inr ?bad"
    "isValid ?ok" "\<not> isValid ?bad" "tap_dispatch (data ?ok) = Inr ()"
    by (simp_all add: sample_verifier_def signed_request_fields forged_request_fields
          tap_dispatch_def)
  have parse: "JSON_parse (text_of (signed_request H)) = Inr ?parsed"
    "JSON_parse (text_of forged_request) = Inr ?parsed"
    "parses_to_event (text_of (signed_request H))"
    "parses_to_meta_event (text_of (signed_request H))"
    by (simp_all add: signed_request_fields forged_request_fields
          parse_lemonsqueezy_scenario_body lemonsqueezy_scenario_body_event)
  note good = webhook_signature_verification
                [of scenario_env "''shh''" H "signed_request H" ?parsed sample_verifier ?ok]
  note bad = webhook_signature_verification
                [of scenario_env "''shh''" H forged_request ?parsed sample_verifier ?bad]
  show "status (lemonsqueezy_webhookHandler H scenario_env forged_request) = 400
     \<and> status (lemonsqueezy_webhookHandler H scenario_env (signed_request H)) = 204
     \<and> status (creem_webhookHandler H scenario_env forged_request) = 400
     \<and> status (creem_webhookHandler H scenario_env (signed_request H)) = 204
     \<and> (status (dodopayments_webhookHandler H scenario_env forged_request) = 400
         \<or> status (dodopayments_webhookHandler H scenario_env forged_request) = 401)
     \<and> status (dodopayments_webhookHandler H scenario_env (signed_request H)) = 204
     \<and> status (tap_webhookHandler sample_verifier scenario_env forged_request) = 401
     \<and> status (tap_webhookHandler sample_verifier scenario_env (signed_request H)) = 200
     \<and> status (stripe_webhookHandler scenario_env (signed_request H)) = 200
     \<and> status (polar_webhookHandler scenario_env (signed_request H)) = 202
     \<and> status (console_webhookHandler (signed_request H)) = 200"
    using good bad secrets sig tap parse scenario_env_lookup signed_request_signed[of H]
      forged_request_not_signed[of H] signed_request_fields(1)[of H] forged_request_fields(1)
    by simp
qed

text \<open>
  The claim as stated fails for Stripe: two requests with the same \<open>stripe-signature\<close>
  header and bodies that differ in one byte are both answered with 200, so whichever body
  the signature was computed over, a tampered one is accepted.
\<close>

theorem stripe_tampered_body_counterexample:
  "stripe_tampered_body \<noteq> stripe_event_body
   \<and> status (stripe_webhookHandler scenario_env
        \<lparr>req_method = ''POST'', headers = [''stripe-signature'' \<mapsto> ''t=1700000000,v1=00''],
         body = Some stripe_event_body\<rparr>) = 200
   \<and> status (stripe_webhookHandler scenario_env
        \<lparr>req_method = ''POST'', headers = [''stripe-signature'' \<mapsto> ''t=1700000000,v1=00''],
         body = Some stripe_tampered_body\<rparr>) = 200"
  by (simp add: stripe_webhookHandler_def stripe_try_def scenario_env_lookup absent_def
        text_of_ascii scenario_bodies_ascii parse_stripe_bodies)
    (simp add: stripe_event_body_def stripe_tampered_body_def)

subsection \<open>The comparison of signatures (C2)\<close>

text \<open>
  Claim C2 is about the running time of the comparison, which these definitions do not
  have: LemonSqueezy's \<open>timingSafeEqual\<close> and the \<open>!==\<close> of Creem and DodoPayments are
  both functions of the two strings. What they compute is stated below; that a signature
  which differs from the expected one is rejected, whatever its length, is part of the
  theorem of claim C1.
\<close>

lemma timingSafeEqual_result:
  "timingSafeEqual a b = (if length a = length b then Inr (a = b) else Inl RangeError)"
  "timingSafeEqual a b = Inr True \<longleftrightarrow> a = b"
  by (auto simp: timingSafeEqual_def)

subsection \<open>A missing webhook secret (C3)\<close>

text \<open>
  Claim C3, as amended. When the webhook secret is absent from the configuration, the
  handlers of Stripe, LemonSqueezy, Polar and DodoPayments answer every request with status
  500. Creem's handler checks the method and the signature header first: it answers with
  500 every \<open>POST\<close> request that carries a \<open>creem-signature\<close> header.
\<close>

theorem missing_webhook_secret:
  "(absent (env ''STRIPE_WEBHOOK_SECRET'')
      \<longrightarrow> status (stripe_webhookHandler env req) = 500)
   \<and> (absent (env ''LEMONSQUEEZY_WEBHOOK_SECRET'')
      \<longrightarrow> status (lemonsqueezy_webhookHandler H env req) = 500)
   \<and> (absent (env ''POLAR_WEBHOOK_SECRET'')
      \<longrightarrow> status (polar_webhookHandler env req) = 500)
   \<and> (absent (env ''DODO_PAYMENTS_WEBHOOK_SECRET'')
      \<longrightarrow> status (dodopayments_webhookHandler H env req) = 500)
   \<and> (absent (env ''CREEM_WEBHOOK_SECRET'') \<and> req_method req = ''POST''
        \<and> \<not> absent (headers req ''creem-signature'')
      \<longrightarrow> status (creem_webhookHandler H env req) = 500)"
  by (auto simp: absent_def stripe_webhookHandler_def lemonsqueezy_webhookHandler_def
        polar_webhookHandler_def dodopayments_webhookHandler_def creem_webhookHandler_def
      split: option.splits)

theorem missing_webhook_secret_witness:
  "\<forall>H. status (stripe_webhookHandler Map.empty
            \<lparr>req_method = ''POST'', headers = [''creem-signature'' \<mapsto> ''00''], body = Some ''{}''\<rparr>) = 500
     \<and> status (lemonsqueezy_webhookHandler H Map.empty
            \<lparr>req_method = ''POST'', headers = [''creem-signature'' \<mapsto> ''00''], body = Some ''{}''\<rparr>) = 500
     \<and> status (polar_webhookHandler Map.empty
            \<lparr>req_method = ''POST'', headers = [''creem-signature'' \<mapsto> ''00''], body = Some ''{}''\<rparr>) = 500
     \<and> status (dodopayments_webhookHandler H Map.empty
            \<lparr>req_method = ''POST'', headers = [''creem-signature'' \<mapsto> ''00''], body = Some ''{}''\<rparr>) = 500
     \<and> status (creem_webhookHandler H Map.empty
            \<lparr>req_method = ''POST'', headers = [''creem-signature'' \<mapsto> ''00''], body = Some ''{}''\<rparr>) = 500"
proof
  fix H :: hmac
  let ?req = "\<lparr>req_method = ''POST'', headers = [''creem-signature'' \<mapsto> ''00''], body = Some ''{}''\<rparr>"
  have a: "absent (Map.empty v)" for v :: string by (simp add: absent_def)
  have b: "req_method ?req = ''POST''" "\<not> absent (headers ?req ''creem-signature'')"
    by (simp_all add: absent_def)
  from missing_webhook_secret[of Map.empty ?req H] a b
  show "status (stripe_webhookHandler Map.empty ?req) = 500
     \<and> status (lemonsqueezy_webhookHandler H Map.empty ?req) = 500
     \<and> status (polar_webhookHandler Map.empty ?req) = 500
     \<and> status (dodopayments_webhookHandler H Map.empty ?req) = 500
     \<and> status (creem_webhookHandler H Map.empty ?req) = 500"
    by blast
qed

text \<open>
  The claim as stated ("status 500 for every incoming request") fails for Creem: without
  the secret, a \<open>GET\<close> request is answered with 405 and a \<open>POST\<close> request without the
  signature header with 400.
\<close>

theorem creem_missing_secret_counterexample:
  "\<forall>H. status (creem_webhookHandler H Map.empty
            \<lparr>req_method = ''GET'', headers = Map.empty, body = None\<rparr>) = 405
     \<and> status (creem_webhookHandler H Map.empty
            \<lparr>req_method = ''POST'', headers = Map.empty, body = Some ''{}''\<rparr>) = 400"
  by (simp add: creem_webhookHandler_def)

subsection \<open>DodoPayments end to end (C4)\<close>

text \<open>
  Claim C4, as amended. DodoPayments end to end: with a secret configured, the headers
  \<open>webhook-id = wh_1\<close> and \<open>webhook-timestamp = 1700000000\<close> and the scenario's body, a
  request whose \<open>webhook-signature\<close> is the hexadecimal HMAC-SHA256 of
  \<open>wh_1.1700000000.\<close> followed by the body is answered with status 204; every other
  signature that is not empty is answered with status 401; an empty signature is answered
  with status 400, as a missing header is.
\<close>

theorem dodopayments_end_to_end:
  assumes secret: "env ''DODO_PAYMENTS_WEBHOOK_SECRET'' = Some secret" "secret \<noteq> []"
    and body: "body req = Some dodopayments_scenario_body"
    and id: "headers req ''webhook-id'' = Some ''wh_1''"
    and ts: "headers req ''webhook-timestamp'' = Some ''1700000000''"
    and sg: "headers req ''webhook-signature'' = Some sig"
  shows "(sig = digest_hex (H secret (''wh_1.1700000000.'' @ dodopayments_scenario_body))
            \<longrightarrow> status (dodopayments_webhookHandler H env req) = 204)
       \<and> (sig \<noteq> digest_hex (H secret (''wh_1.1700000000.'' @ dodopayments_scenario_body))
            \<and> sig \<noteq> []
            \<longrightarrow> status (dodopayments_webhookHandler H env req) = 401)
       \<and> (sig = [] \<longrightarrow> status (dodopayments_webhookHandler H env req) = 400)"
proof -
  have t: "text_of req = dodopayments_scenario_body"
    using body by (simp add: text_of_ascii scenario_bodies_ascii)
  have ne: "digest_hex w \<noteq> []" for w
    by (rule digest_hex_neq) simp
  show ?thesis
    using secret body id ts sg t ne
    by (auto simp: dodopayments_webhookHandler_def dodopayments_try_def
          parse_dodopayments_scenario_body)
qed

theorem dodopayments_end_to_end_witness:
  "\<forall>H. status (dodopayments_webhookHandler H [''DODO_PAYMENTS_WEBHOOK_SECRET'' \<mapsto> ''whsec'']
          \<lparr>req_method = ''POST'',
           headers = [''webhook-id'' \<mapsto> ''wh_1'', ''webhook-timestamp'' \<mapsto> ''1700000000'',
                      ''webhook-signature'' \<mapsto>
                        digest_hex (H ''whsec'' (''wh_1.1700000000.'' @ dodopayments_scenario_body))],
           body = Some dodopayments_scenario_body\<rparr>) = 204
     \<and> status (dodopayments_webhookHandler H [''DODO_PAYMENTS_WEBHOOK_SECRET'' \<mapsto> ''whsec'']
          \<lparr>req_method = ''POST'',
           headers = [''webhook-id'' \<mapsto> ''wh_1'', ''webhook-timestamp'' \<mapsto> ''1700000000'',
                      ''webhook-signature'' \<mapsto> ''deadbeef''],
           body = Some dodopayments_scenario_body\<rparr>) = 401"
proof
  fix H :: hmac
  let ?env = "[''DODO_PAYMENTS_WEBHOOK_SECRET'' \<mapsto> ''whsec'']"
  let ?good = "digest_hex (H ''whsec'' (''wh_1.1700000000.'' @ dodopayments_scenario_body))"
  let ?r = "\<lambda>s. \<lparr>req_method = ''POST'',
           headers = [''webhook-id'' \<mapsto> ''wh_1'', ''webhook-timestamp'' \<mapsto> ''1700000000'',
                      ''webhook-signature'' \<mapsto> s],
           body = Some dodopayments_scenario_body\<rparr>"
  have ne: "''deadbeef'' \<noteq> ?good" by (rule digest_hex_neq) simp
  have a: "status (dodopayments_webhookHandler H ?env (?r ?good)) = 204"
    using dodopayments_end_to_end[of ?env "''whsec''" "?r ?good" ?good H] by simp
  have b: "status (dodopayments_webhookHandler H ?env (?r ''deadbeef'')) = 401"
    using dodopayments_end_to_end[of ?env "''whsec''" "?r ''deadbeef''" "''deadbeef''" H] ne
    by simp
  from a b show "status (dodopayments_webhookHandler H ?env (?r ?good)) = 204
     \<and> status (dodopayments_webhookHandler H ?env (?r ''deadbeef'')) = 401" by simp
qed

text \<open>
  The claim as stated ("any other signature value returns 401") fails at the empty
  signature: the handler's test \<open>!webhookSignature\<close> answers it with 400.
\<close>

theorem dodopayments_empty_signature_counterexample:
  "\<forall>H. '''' \<noteq> digest_hex (H ''whsec'' (''wh_1.1700000000.'' @ dodopayments_scenario_body))
     \<and> status (dodopayments_webhookHandler H [''DODO_PAYMENTS_WEBHOOK_SECRET'' \<mapsto> ''whsec'']
          \<lparr>req_method = ''POST'',
           headers = [''webhook-id'' \<mapsto> ''wh_1'', ''webhook-timestamp'' \<mapsto> ''1700000000'',
                      ''webhook-signature'' \<mapsto> ''''],
           body = Some dodopayments_scenario_body\<rparr>) = 400"
proof
  fix H :: hmac
  have "'''' \<noteq> digest_hex (H ''whsec'' (''wh_1.1700000000.'' @ dodopayments_scenario_body))"
    by (rule digest_hex_neq) simp
  then show "'''' \<noteq> digest_hex (H ''whsec'' (''wh_1.1700000000.'' @ dodopayments_scenario_body))
     \<and> status (dodopayments_webhookHandler H [''DODO_PAYMENTS_WEBHOOK_SECRET'' \<mapsto> ''whsec'']
          \<lparr>req_method = ''POST'',
           headers = [''webhook-id'' \<mapsto> ''wh_1'', ''webhook-timestamp'' \<mapsto> ''1700000000'',
                      ''webhook-signature'' \<mapsto> ''''],
           body = Some dodopayments_scenario_body\<rparr>) = 400"
    by (simp add: dodopayments_webhookHandler_def dodopayments_try_def text_of_ascii
          scenario_bodies_ascii)
qed

subsection \<open>LemonSqueezy end to end (C5)\<close>

text \<open>
  Claim C5. LemonSqueezy end to end: with the secret \<open>shh\<close> configured and the scenario's
  body, a request whose \<open>x-signature\<close> header is the hexadecimal HMAC-SHA256 of the body
  under \<open>shh\<close> is answered with status 204, and the same body with the signature
  \<open>deadbeef\<close> is answered with status 400.
\<close>

theorem lemonsqueezy_end_to_end:
  assumes secret: "env ''LEMONSQUEEZY_WEBHOOK_SECRET'' = Some ''shh''"
    and body: "text_of req = lemonsqueezy_scenario_body"
  shows "(headers req ''x-signature'' = Some (digest_hex (H ''shh'' lemonsqueezy_scenario_body))
            \<longrightarrow> status (lemonsqueezy_webhookHandler H env req) = 204)
       \<and> (headers req ''x-signature'' = Some ''deadbeef''
            \<longrightarrow> status (lemonsqueezy_webhookHandler H env req) = 400)"
  using secret body
  by (simp add: lemonsqueezy_webhookHandler_def lemonsqueezy_try_def Buffer_from_def
        timingSafeEqual_def parse_lemonsqueezy_scenario_body)

theorem lemonsqueezy_end_to_end_witness:
  "\<forall>H. status (lemonsqueezy_webhookHandler H [''LEMONSQUEEZY_WEBHOOK_SECRET'' \<mapsto> ''shh'']
        \<lparr>req_method = ''POST'',
         headers = [''x-signature'' \<mapsto> digest_hex (H ''shh'' lemonsqueezy_scenario_body)],
         body = Some lemonsqueezy_scenario_body\<rparr>) = 204
     \<and> status (lemonsqueezy_webhookHandler H [''LEMONSQUEEZY_WEBHOOK_SECRET'' \<mapsto> ''shh'']
        \<lparr>req_method = ''POST'', headers = [''x-signature'' \<mapsto> ''deadbeef''],
         body = Some lemonsqueezy_scenario_body\<rparr>) = 400"
proof
  fix H :: hmac
  let ?env = "[''LEMONSQUEEZY_WEBHOOK_SECRET'' \<mapsto> ''shh'']"
  let ?r1 = "\<lparr>req_method = ''POST'',
         headers = [''x-signature'' \<mapsto> digest_hex (H ''shh'' lemonsqueezy_scenario_body)],
         body = Some lemonsqueezy_scenario_body\<rparr>"
  let ?r2 = "\<lparr>req_method = ''POST'', headers = [''x-signature'' \<mapsto> ''deadbeef''],
         body = Some lemonsqueezy_scenario_body\<rparr>"
  show "status (lemonsqueezy_webhookHandler H ?env ?r1) = 204 \<and> status (lemonsqueezy_webhookHandler H ?env ?r2) = 400"
    using lemonsqueezy_end_to_end[of ?env ?r1 H] lemonsqueezy_end_to_end[of ?env ?r2 H]
    by (simp add: text_of_ascii scenario_bodies_ascii)
qed

subsection \<open>Tokenize, then charge (C6)\<close>




subsection \<open>Extracting a saved card (C7)\<close>

text \<open>
  Claim C7, as amended. On every payload object \<open>extractSavedCardFromWebhook\<close> returns
  without an error. It returns \<open>null\<close> whenever one of \<open>card.id\<close>, \<open>customer.id\<close> and
  \<open>payment_agreement.id\<close> is missing, and also when one of them is there but falsy
  (\<open>null\<close>, \<open>false\<close>, zero, the empty string); when the three are truthy it returns the
  record of exactly these three identifiers.
\<close>

theorem extractSavedCardFromWebhook_result:
  "extractSavedCardFromWebhook (JObj kvs) =
     (if truthy (saved_id (JObj kvs) ''card'')
         \<and> truthy (saved_id (JObj kvs) ''customer'')
         \<and> truthy (saved_id (JObj kvs) ''payment_agreement'')
      then Inr (Some \<lparr>customerId = saved_id (JObj kvs) ''customer'',
                      cardId = saved_id (JObj kvs) ''card'',
                      paymentAgreementId = saved_id (JObj kvs) ''payment_agreement''\<rparr>)
      else Inr None)
   \<and> ((saved_id (JObj kvs) ''card'' = JUndefined
        \<or> saved_id (JObj kvs) ''customer'' = JUndefined
        \<or> saved_id (JObj kvs) ''payment_agreement'' = JUndefined)
       \<longrightarrow> extractSavedCardFromWebhook (JObj kvs) = Inr None)"
proof -
  let ?c = "get_prop_opt (JObj kvs) ''card''"
  let ?u = "get_prop_opt (JObj kvs) ''customer''"
  let ?p = "get_prop_opt (JObj kvs) ''payment_agreement''"
  have main: "extractSavedCardFromWebhook (JObj kvs) =
     (if truthy (get_prop_opt ?c ''id'') \<and> truthy (get_prop_opt ?u ''id'')
         \<and> truthy (get_prop_opt ?p ''id'')
      then Inr (Some \<lparr>customerId = get_prop_opt ?u ''id'', cardId = get_prop_opt ?c ''id'',
                      paymentAgreementId = get_prop_opt ?p ''id''\<rparr>)
      else Inr None)"
    unfolding extractSavedCardFromWebhook_def get_prop_JObj
    by (simp add: get_prop_truthy)
  show ?thesis
    unfolding saved_id_def using main by auto
qed

theorem extractSavedCardFromWebhook_result_witness:
  "extractSavedCardFromWebhook
     (JObj [(''card'', JObj [(''id'', JStr ''card_1'')]),
            (''customer'', JObj [(''id'', JStr ''cus_1'')]),
            (''payment_agreement'', JObj [(''id'', JStr ''pa_1'')])])
     = Inr (Some \<lparr>customerId = JStr ''cus_1'', cardId = JStr ''card_1'',
                   paymentAgreementId = JStr ''pa_1''\<rparr>)
   \<and> extractSavedCardFromWebhook
     (JObj [(''card'', JObj [(''id'', JStr ''card_1'')]),
            (''customer'', JObj [(''id'', JStr ''cus_1'')])])
     = Inr None"
  using extractSavedCardFromWebhook_result
          [of "[(''card'', JObj [(''id'', JStr ''card_1'')]),
                (''customer'', JObj [(''id'', JStr ''cus_1'')]),
                (''payment_agreement'', JObj [(''id'', JStr ''pa_1'')])]"]
        extractSavedCardFromWebhook_result
          [of "[(''card'', JObj [(''id'', JStr ''card_1'')]),
                (''customer'', JObj [(''id'', JStr ''cus_1'')])]"]
  by (simp add: saved_id_def)

text \<open>
  The claim as stated ("when all three are present it returns the token") fails where an
  identifier is present and falsy: a payload whose \<open>card.id\<close> is the empty string has the
  three identifiers and is answered with \<open>null\<close>.
\<close>

theorem extractSavedCardFromWebhook_counterexample:
  "extractSavedCardFromWebhook
     (JObj [(''card'', JObj [(''id'', JStr '''')]),
            (''customer'', JObj [(''id'', JStr ''cus_1'')]),
            (''payment_agreement'', JObj [(''id'', JStr ''pa_1'')])])
     = Inr None
   \<and> saved_id (JObj [(''card'', JObj [(''id'', JStr '''')]),
            (''customer'', JObj [(''id'', JStr ''cus_1'')]),
            (''payment_agreement'', JObj [(''id'', JStr ''pa_1'')])]) ''card'' = JStr ''''"
  by (simp add: extractSavedCardFromWebhook_def saved_id_def)

subsection \<open>A missing provider key (C8)\<close>

text \<open>
  Claim C8. For every provider that needs a key (Stripe, LemonSqueezy, Polar, Creem,
  DodoPayments, Tap) and every checkout request: when the key is absent from the
  configuration, \<open>createCheckoutLink\<close> throws the error \<open>Missing env variable ...\<close> and has
  made no call. LemonSqueezy needs two variables, its API key and its store id.
\<close>

theorem createCheckoutLink_missing_secret:
  "(absent (env ''STRIPE_SECRET_KEY'')
      \<longrightarrow> stripe_createCheckoutLink F env params
            = (Inl (Error ''Missing env variable STRIPE_SECRET_KEY''), []))
   \<and> (absent (env ''LEMONSQUEEZY_API_KEY'')
      \<longrightarrow> lemonsqueezy_createCheckoutLink P F env params
            = (Inl (Error ''Missing env variable LEMONSQUEEZY_API_KEY''), []))
   \<and> (\<not> absent (env ''LEMONSQUEEZY_API_KEY'') \<and> absent (env ''LEMONSQUEEZY_STORE_ID'')
      \<longrightarrow> lemonsqueezy_createCheckoutLink P F env params
            = (Inl (Error ''Missing env variable LEMONSQUEEZY_STORE_ID''), []))
   \<and> (absent (env ''POLAR_ACCESS_TOKEN'')
      \<longrightarrow> polar_createCheckoutLink F env params
            = (Inl (Error ''Missing env variable POLAR_ACCESS_TOKEN''), []))
   \<and> (absent (env ''CREEM_API_KEY'')
      \<longrightarrow> creem_createCheckoutLink F env params
            = (Inl (Error ''Missing env variable CREEM_API_KEY''), []))
   \<and> (absent (env ''DODO_PAYMENTS_API_KEY'')
      \<longrightarrow> dodopayments_createCheckoutLink F env params
            = (Inl (Error ''Missing env variable DODO_PAYMENTS_API_KEY''), []))
   \<and> (absent (env ''TAP_SECRET_KEY'')
      \<longrightarrow> tap_createCheckoutLink now F env params
            = (Inl (Error ''Missing env variable TAP_SECRET_KEY''), []))"
proof (intro conjI impI, goal_cases)
  case 1 then show ?case
    by (simp add: stripe_createCheckoutLink_def getStripeSecretKey_def require_env_absent)
next
  case 2 then show ?case
    by (simp add: lemonsqueezy_createCheckoutLink_def getLemonSqueezyApiKey_def
          require_env_absent)
next
  case 3
  then obtain k where "env ''LEMONSQUEEZY_API_KEY'' = Some k" "k \<noteq> []"
    by (auto simp: absent_def split: option.splits)
  with 3 show ?case
    by (simp add: lemonsqueezy_createCheckoutLink_def getLemonSqueezyApiKey_def
          getLemonSqueezyStoreId_def require_env_absent require_env_present)
next
  case 4 then show ?case
    by (simp add: polar_createCheckoutLink_def getPolarAccessToken_def require_env_absent)
next
  case 5 then show ?case
    by (simp add: creem_createCheckoutLink_def creemFetch_def getCreemApiKey_def
          require_env_absent)
next
  case 6 then show ?case
    by (simp add: dodopayments_createCheckoutLink_def getDodoPaymentsApiKey_def
          require_env_absent)
next
  case 7 then show ?case
    by (simp add: tap_createCheckoutLink_def getTapSecretKey_def require_env_absent)
qed

theorem createCheckoutLink_missing_secret_witness:
  "\<forall>F P now.
     stripe_createCheckoutLink F Map.empty sample_checkout_params
       = (Inl (Error ''Missing env variable STRIPE_SECRET_KEY''), [])
   \<and> lemonsqueezy_createCheckoutLink P F Map.empty sample_checkout_params
       = (Inl (Error ''Missing env variable LEMONSQUEEZY_API_KEY''), [])
   \<and> lemonsqueezy_createCheckoutLink P F [''LEMONSQUEEZY_API_KEY'' \<mapsto> ''key''] sample_checkout_params
       = (Inl (Error ''Missing env variable LEMONSQUEEZY_STORE_ID''), [])
   \<and> polar_createCheckoutLink F Map.empty sample_checkout_params
       = (Inl (Error ''Missing env variable POLAR_ACCESS_TOKEN''), [])
   \<and> creem_createCheckoutLink F Map.empty sample_checkout_params
       = (Inl (Error ''Missing env variable CREEM_API_KEY''), [])
   \<and> dodopayments_createCheckoutLink F Map.empty sample_checkout_params
       = (Inl (Error ''Missing env variable DODO_PAYMENTS_API_KEY''), [])
   \<and> tap_createCheckoutLink now F Map.empty sample_checkout_params
       = (Inl (Error ''Missing env variable TAP_SECRET_KEY''), [])"
proof (intro allI)
  fix F :: fetch and P :: parse_int and now :: int
  have a: "absent (Map.empty v)" for v :: string by (simp add: absent_def)
  have b: "\<not> absent ([''LEMONSQUEEZY_API_KEY'' \<mapsto> ''key''] ''LEMONSQUEEZY_API_KEY'')"
    "absent ([''LEMONSQUEEZY_API_KEY'' \<mapsto> ''key''] ''LEMONSQUEEZY_STORE_ID'')"
    by (simp_all add: absent_def)
  from createCheckoutLink_missing_secret[of Map.empty F sample_checkout_params P now]
       createCheckoutLink_missing_secret
         [of "[''LEMONSQUEEZY_API_KEY'' \<mapsto> ''key'']" F sample_checkout_params P now] a b
  show "stripe_createCheckoutLink F Map.empty sample_checkout_params
       = (Inl (Error ''Missing env variable STRIPE_SECRET_KEY''), [])
   \<and> lemonsqueezy_createCheckoutLink P F Map.empty sample_checkout_params
       = (Inl (Error ''Missing env variable LEMONSQUEEZY_API_KEY''), [])
   \<and> lemonsqueezy_createCheckoutLink P F [''LEMONSQUEEZY_API_KEY'' \<mapsto> ''key''] sample_checkout_params
       = (Inl (Error ''Missing env variable LEMONSQUEEZY_STORE_ID''), [])
   \<and> polar_createCheckoutLink F Map.empty sample_checkout_params
       = (Inl (Error ''Missing env variable POLAR_ACCESS_TOKEN''), [])
   \<and> creem_createCheckoutLink F Map.empty sample_checkout_params
       = (Inl (Error ''Missing env variable CREEM_API_KEY''), [])
   \<and> dodopayments_createCheckoutLink F Map.empty sample_checkout_params
       = (Inl (Error ''Missing env variable DODO_PAYMENTS_API_KEY''), [])
   \<and> tap_createCheckoutLink now F Map.empty sample_checkout_params
       = (Inl (Error ''Missing env variable TAP_SECRET_KEY''), [])"
    by blast
qed

subsection \<open>The default quantity (C9)\<close>

text \<open>
  Claim C9, as amended. For a checkout request without seats, the call that
  \<open>createCheckoutLink\<close> makes carries the quantity 1 for Stripe (the form field
  \<open>line_items[0][quantity]\<close>), LemonSqueezy (\<open>variant_quantities[0].quantity\<close>), Creem
  (\<open>units\<close>), DodoPayments (\<open>product_cart[0].quantity\<close>) and Tap (as the text \<open>1\<close> in
  \<open>metadata.quantity\<close>). Polar's call does not depend on the seats of the request and has
  no quantity member; Console and Custom make no call.
\<close>

theorem checkout_quantity_defaults_to_one:
  "(seats params = None \<and> env ''STRIPE_SECRET_KEY'' = Some key \<and> key \<noteq> []
      \<longrightarrow> snd (stripe_createCheckoutLink F env params) = [stripe_checkout_call key params]
        \<and> map_of (form_of (stripe_checkout_call key params)) ''line_items[0][quantity]''
            = Some ''1'')
   \<and> (seats params = None \<and> env ''LEMONSQUEEZY_API_KEY'' = Some key \<and> key \<noteq> []
        \<and> env ''LEMONSQUEEZY_STORE_ID'' = Some store \<and> store \<noteq> []
      \<longrightarrow> snd (lemonsqueezy_createCheckoutLink P F env params)
            = [lemonsqueezy_checkout_call P key store params]
        \<and> at_path (json_of (lemonsqueezy_checkout_call P key store params))
             [Key ''data'', Key ''attributes'', Key ''checkout_data'',
              Key ''variant_quantities'', Index 0, Key ''quantity'']
            = JNum (Num 1 0))
   \<and> (seats params = None \<and> env ''CREEM_API_KEY'' = Some key \<and> key \<noteq> []
      \<longrightarrow> snd (creem_createCheckoutLink F env params)
            = [creem_call (getCreemApiUrl env) key ''/checkouts'' ''POST''
                 (JsonBody (creem_checkout_body params))]
        \<and> at_path (creem_checkout_body params) [Key ''units''] = JNum (Num 1 0))
   \<and> (seats params = None \<and> env ''DODO_PAYMENTS_API_KEY'' = Some key \<and> key \<noteq> []
      \<longrightarrow> snd (dodopayments_createCheckoutLink F env params)
            = [dodopayments_checkout_call (getDodoPaymentsApiUrl env) key params]
        \<and> at_path (json_of (dodopayments_checkout_call (getDodoPaymentsApiUrl env) key params))
             [Key ''product_cart'', Index 0, Key ''quantity'']
            = JNum (Num 1 0))
   \<and> (seats params = None \<and> env ''TAP_SECRET_KEY'' = Some key \<and> key \<noteq> []
      \<longrightarrow> snd (tap_createCheckoutLink now F env params)
            = [tap_call ''/charges'' key (tap_checkout_body now params)]
        \<and> at_path (tap_checkout_body now params) [Key ''metadata'', Key ''quantity'']
            = JStr ''1'')
   \<and> (env ''POLAR_ACCESS_TOKEN'' = Some key \<and> key \<noteq> []
      \<longrightarrow> snd (polar_createCheckoutLink F env params) = [polar_checkout_call key params]
        \<and> polar_checkout_call key (params\<lparr>seats := n\<rparr>) = polar_checkout_call key params
        \<and> at_path (json_of (polar_checkout_call key params)) [Key ''quantity''] = JUndefined)
   \<and> snd (console_createCheckoutLink params) = []
   \<and> snd (custom_createCheckoutLink params) = []"
proof (intro conjI impI, goal_cases)
  case 1 then show ?case
    by (auto simp: stripe_createCheckoutLink_def getStripeSecretKey_def require_env_present
          Let_def split: sum.splits)
next
  case 2 then show ?case
    by (simp add: stripe_checkout_call_def stripe_checkout_body_def form_of_def or_else_def
          String_of_int_examples)
next
  case 3 then show ?case
    by (auto simp: lemonsqueezy_createCheckoutLink_def getLemonSqueezyApiKey_def
          getLemonSqueezyStoreId_def require_env_present Let_def split: sum.splits)
next
  case 4 then show ?case
    by (simp add: lemonsqueezy_checkout_call_def lemonsqueezy_checkout_body_def json_of_def
          or_else_def js_int_def)
next
  case 5 then show ?case
    by (auto simp: creem_createCheckoutLink_def creemFetch_def getCreemApiKey_def
          require_env_present Let_def split: sum.splits)
next
  case 6 then show ?case
    by (simp add: creem_checkout_body_def or_else_def js_int_def)
next
  case 7 then show ?case
    by (auto simp: dodopayments_createCheckoutLink_def getDodoPaymentsApiKey_def
          require_env_present Let_def split: sum.splits)
next
  case 8 then show ?case
    by (simp add: dodopayments_checkout_call_def dodopayments_checkout_body_def json_of_def
          or_else_def js_int_def)
next
  case 9 then show ?case
    by (auto simp: tap_createCheckoutLink_def getTapSecretKey_def require_env_present
          Let_def split: sum.splits)
next
  case 10
  have "map_of (rev (metadata_ids params)) ''quantity'' = None"
    by (simp add: metadata_ids_def js_opt_def)
  with 10 show ?case
    by (simp add: tap_checkout_body_def tap_checkout_metadata_def or_else_def
          String_of_int_examples)
next
  case 11 then show ?case
    by (auto simp: polar_createCheckoutLink_def getPolarAccessToken_def require_env_present
          Let_def split: sum.splits)
next
  case 12 show ?case
    by (simp add: polar_checkout_call_def polar_checkout_body_def metadata_ids_def)
next
  case 13 show ?case
    by (simp add: polar_checkout_call_def polar_checkout_body_def json_of_def)
next
  case 14 show ?case by (simp add: console_createCheckoutLink_def)
next
  case 15 show ?case by (simp add: custom_createCheckoutLink_def)
qed

theorem checkout_quantity_defaults_to_one_witness:
  "\<forall>F P.
     snd (stripe_createCheckoutLink F checkout_env sample_checkout_params)
       = [stripe_checkout_call ''sk_test'' sample_checkout_params]
   \<and> map_of (form_of (stripe_checkout_call ''sk_test'' sample_checkout_params))
        ''line_items[0][quantity]'' = Some ''1''
   \<and> snd (lemonsqueezy_createCheckoutLink P F checkout_env sample_checkout_params)
       = [lemonsqueezy_checkout_call P ''sk_test'' ''42'' sample_checkout_params]
   \<and> at_path (json_of (lemonsqueezy_checkout_call P ''sk_test'' ''42'' sample_checkout_params))
        [Key ''data'', Key ''attributes'', Key ''checkout_data'',
         Key ''variant_quantities'', Index 0, Key ''quantity'']
       = JNum (Num 1 0)
   \<and> snd (creem_createCheckoutLink F checkout_env sample_checkout_params)
       = [creem_call ''https://test-api.creem.io/v1'' ''sk_test'' ''/checkouts'' ''POST''
            (JsonBody (creem_checkout_body sample_checkout_params))]
   \<and> at_path (creem_checkout_body sample_checkout_params) [Key ''units''] = JNum (Num 1 0)
   \<and> snd (dodopayments_createCheckoutLink F checkout_env sample_checkout_params)
       = [dodopayments_checkout_call ''https://api.dodopayments.com/test/v1'' ''sk_test''
            sample_checkout_params]
   \<and> at_path (json_of (dodopayments_checkout_call ''https://api.dodopayments.com/test/v1''
                 ''sk_test'' sample_checkout_params))
        [Key ''product_cart'', Index 0, Key ''quantity'']
       = JNum (Num 1 0)
   \<and> snd (tap_createCheckoutLink 1700000000000 F checkout_env sample_checkout_params)
       = [tap_call ''/charges'' ''sk_test''
            (tap_checkout_body 1700000000000 sample_checkout_params)]
   \<and> at_path (tap_checkout_body 1700000000000 sample_checkout_params)
        [Key ''metadata'', Key ''quantity'']
       = JStr ''1''
   \<and> polar_checkout_call ''sk_test'' (sample_checkout_params\<lparr>seats := Some 5\<rparr>)
       = polar_checkout_call ''sk_test'' sample_checkout_params"
proof (intro allI)
  fix F :: fetch and P :: parse_int
  have s: "seats sample_checkout_params = None" "''sk_test'' \<noteq> []" "''42'' \<noteq> []"
    by (simp_all add: sample_checkout_params_def)
  have u: "getCreemApiUrl checkout_env = ''https://test-api.creem.io/v1''"
    "getDodoPaymentsApiUrl checkout_env = ''https://api.dodopayments.com/test/v1''"
    by (simp_all add: getCreemApiUrl_def getDodoPaymentsApiUrl_def checkout_env_lookup)
  from checkout_quantity_defaults_to_one
         [of sample_checkout_params checkout_env "''sk_test''" F "''42''" P 1700000000000
             "Some 5"]
       s u checkout_env_lookup
  show "snd (stripe_createCheckoutLink F checkout_env sample_checkout_params)
       = [stripe_checkout_call ''sk_test'' sample_checkout_params]
   \<and> map_of (form_of (stripe_checkout_call ''sk_test'' sample_checkout_params))
        ''line_items[0][quantity]'' = Some ''1''
   \<and> snd (lemonsqueezy_createCheckoutLink P F checkout_env sample_checkout_params)
       = [lemonsqueezy_checkout_call P ''sk_test'' ''42'' sample_checkout_params]
   \<and> at_path (json_of (lemonsqueezy_checkout_call P ''sk_test'' ''42'' sample_checkout_params))
        [Key ''data'', Key ''attributes'', Key ''checkout_data'',
         Key ''variant_quantities'', Index 0, Key ''quantity'']
       = JNum (Num 1 0)
   \<and> snd (creem_createCheckoutLink F checkout_env sample_checkout_params)
       = [creem_call ''https://test-api.creem.io/v1'' ''sk_test'' ''/checkouts'' ''POST''
            (JsonBody (creem_checkout_body sample_checkout_params))]
   \<and> at_path (creem_checkout_body sample_checkout_params) [Key ''units''] = JNum (Num 1 0)
   \<and> snd (dodopayments_createCheckoutLink F checkout_env sample_checkout_params)
       = [dodopayments_checkout_call ''https://api.dodopayments.com/test/v1'' ''sk_test''
            sample_checkout_params]
   \<and> at_path (json_of (dodopayments_checkout_call ''https://api.dodopayments.com/test/v1''
                 ''sk_test'' sample_checkout_params))
        [Key ''product_cart'', Index 0, Key ''quantity'']
       = JNum (Num 1 0)
   \<and> snd (tap_createCheckoutLink 1700000000000 F checkout_env sample_checkout_params)
       = [tap_call ''/charges'' ''sk_test''
            (tap_checkout_body 1700000000000 sample_checkout_params)]
   \<and> at_path (tap_checkout_body 1700000000000 sample_checkout_params)
        [Key ''metadata'', Key ''quantity'']
       = JStr ''1''
   \<and> polar_checkout_call ''sk_test'' (sample_checkout_params\<lparr>seats := Some 5\<rparr>)
       = polar_checkout_call ''sk_test'' sample_checkout_params"
    by simp
qed

text \<open>
  The claim as stated ("for every provider") fails for Polar: its call for a request
  without seats carries the products, the success URL, the metadata and the customer id,
  and no quantity.
\<close>

theorem polar_checkout_counterexample:
  "\<forall>F. seats sample_checkout_params = None
     \<and> snd (polar_createCheckoutLink F checkout_env sample_checkout_params)
       = [\<lparr>url = ''https://api.polar.sh/v1/checkouts'', http_method = ''POST'',
           http_headers = [(''Authorization'', ''Bearer sk_test''),
                           (''Content-Type'', ''application/json'')],
           payload = JsonBody (JObj
             [(''products'', JArr [JStr ''price_1'']),
              (''success_url'', JStr ''https://example.com/success''),
              (''metadata'', JObj [(''organization_id'', JStr ''org_1'')]),
              (''customer_id'', JUndefined)])\<rparr>]"
proof
  fix F :: fetch
  have "snd (polar_createCheckoutLink F checkout_env sample_checkout_params)
          = [polar_checkout_call ''sk_test'' sample_checkout_params]"
    by (auto simp: polar_createCheckoutLink_def getPolarAccessToken_def require_env_present
          checkout_env_lookup Let_def split: sum.splits)
  moreover have "polar_checkout_call ''sk_test'' sample_checkout_params
       = \<lparr>url = ''https://api.polar.sh/v1/checkouts'', http_method = ''POST'',
           http_headers = [(''Authorization'', ''Bearer sk_test''),
                           (''Content-Type'', ''application/json'')],
           payload = JsonBody (JObj
             [(''products'', JArr [JStr ''price_1'']),
              (''success_url'', JStr ''https://example.com/success''),
              (''metadata'', JObj [(''organization_id'', JStr ''org_1'')]),
              (''customer_id'', JUndefined)])\<rparr>"
    by (simp add: polar_checkout_call_def polar_checkout_body_def sample_checkout_params_def
          bearer_def or_else_def metadata_ids_def absent_def js_opt_def or_undefined_def)
  ultimately show "seats sample_checkout_params = None
     \<and> snd (polar_createCheckoutLink F checkout_env sample_checkout_params)
       = [\<lparr>url = ''https://api.polar.sh/v1/checkouts'', http_method = ''POST'',
           http_headers = [(''Authorization'', ''Bearer sk_test''),
                           (''Content-Type'', ''application/json'')],
           payload = JsonBody (JObj
             [(''products'', JArr [JStr ''price_1'']),
              (''success_url'', JStr ''https://example.com/success''),
              (''metadata'', JObj [(''organization_id'', JStr ''org_1'')]),
              (''customer_id'', JUndefined)])\<rparr>]"
    by (simp add: sample_checkout_params_def)
qed

subsection \<open>The amount and currency of Tap's checkout (C10)\<close>

text \<open>
  Claim C10. Every call that Tap's \<open>createCheckoutLink\<close> makes carries the amount 0 and
  the currency \<open>USD\<close>, whatever the request is: with the key configured it makes exactly
  one call, to \<open>/charges\<close>, with the body \<open>tap_checkout_body\<close>, whose \<open>amount\<close> and
  \<open>currency\<close> members are these constants; without the key it makes no call.
\<close>

theorem tap_checkout_amount_currency:
  "at_path (tap_checkout_body now params) [Key ''amount''] = JNum (Num 0 0)
   \<and> at_path (tap_checkout_body now params) [Key ''currency''] = JStr ''USD''
   \<and> (env ''TAP_SECRET_KEY'' = Some key \<and> key \<noteq> []
      \<longrightarrow> snd (tap_createCheckoutLink now F env params)
            = [\<lparr>url = ''https://api.tap.company/v2/charges'', http_method = ''POST'',
                http_headers = [(''Authorization'', ''Bearer '' @ key),
                                (''Content-Type'', ''application/json'')],
                payload = JsonBody (tap_checkout_body now params)\<rparr>])
   \<and> (absent (env ''TAP_SECRET_KEY'')
      \<longrightarrow> snd (tap_createCheckoutLink now F env params) = [])"
proof (intro conjI impI, goal_cases)
  case 1 show ?case by (simp add: tap_checkout_body_def js_int_def)
next
  case 2 show ?case by (simp add: tap_checkout_body_def js_int_def)
next
  case 3 then show ?case
    by (auto simp: tap_createCheckoutLink_def getTapSecretKey_def require_env_present
          tap_call_def bearer_def Let_def split: sum.splits)
next
  case 4 then show ?case
    by (simp add: tap_createCheckoutLink_def getTapSecretKey_def require_env_absent)
qed

theorem tap_checkout_amount_currency_witness:
  "\<forall>F. at_path (tap_checkout_body 1700000000000 sample_checkout_params) [Key ''amount'']
         = JNum (Num 0 0)
   \<and> at_path (tap_checkout_body 1700000000000 sample_checkout_params) [Key ''currency'']
         = JStr ''USD''
   \<and> snd (tap_createCheckoutLink 1700000000000 F [''TAP_SECRET_KEY'' \<mapsto> ''sk_test'']
            sample_checkout_params)
       = [\<lparr>url = ''https://api.tap.company/v2/charges'', http_method = ''POST'',
           http_headers = [(''Authorization'', ''Bearer sk_test''),
                           (''Content-Type'', ''application/json'')],
           payload = JsonBody (tap_checkout_body 1700000000000 sample_checkout_params)\<rparr>]
   \<and> snd (tap_createCheckoutLink 1700000000000 F Map.empty sample_checkout_params) = []"
proof
  fix F :: fetch
  from tap_checkout_amount_currency
         [of 1700000000000 sample_checkout_params "[''TAP_SECRET_KEY'' \<mapsto> ''sk_test'']"
             "''sk_test''" F]
       tap_checkout_amount_currency
         [of 1700000000000 sample_checkout_params Map.empty "''sk_test''" F]
  show "at_path (tap_checkout_body 1700000000000 sample_checkout_params) [Key ''amount'']
         = JNum (Num 0 0)
   \<and> at_path (tap_checkout_body 1700000000000 sample_checkout_params) [Key ''currency'']
         = JStr ''USD''
   \<and> snd (tap_createCheckoutLink 1700000000000 F [''TAP_SECRET_KEY'' \<mapsto> ''sk_test'']
            sample_checkout_params)
       = [\<lparr>url = ''https://api.tap.company/v2/charges'', http_method = ''POST'',
           http_headers = [(''Authorization'', ''Bearer sk_test''),
                           (''Content-Type'', ''application/json'')],
           payload = JsonBody (tap_checkout_body 1700000000000 sample_checkout_params)\<rparr>]
   \<and> snd (tap_createCheckoutLink 1700000000000 F Map.empty sample_checkout_params) = []"
    by (simp add: absent_def)
qed

end
